theory Spec2Isabelle
  imports Complex_Main
begin

section \<open>Data of the external libraries, as the source uses them\<close>

text \<open>
  The two source files, \<^verbatim>\<open>stokes.py\<close> and \<^verbatim>\<open>post_process.py\<close>, build symbolic
  objects of the finite-element library (elements, function spaces, expressions, forms)
  and hand them to the library. The objects are modelled as datatypes whose constructors
  are the library's constructors; Python floats are read as real numbers. Building an
  expression is symbolic and never raises here: the checks that the library makes on the
  shapes of operands are its own and are not modelled.
\<close>

datatype error =
    ZeroDivisionError
  | ValueError
  | IndexError
  | TypeError
  | LibraryError string
  | Blocked

text \<open>The names imported from the modules \<^verbatim>\<open>params\<close>, \<open>geometry\<close> and \<open>hydrology\<close>,
  which are not among the source files: they are parameters of the model.\<close>

record params =
  rho_i :: real
  g :: real
  tol :: real
  B :: real
  rm2 :: real
  rho_w :: real
  C :: real
  eps_p :: real
  eps_v :: real
  dt :: real
  quad_degree :: int
  Lngth :: real
  sigma_0 :: real
  Hght :: real
  dim :: string
  nt :: int
  lake_vol_0 :: real
  Vdot :: "real \<Rightarrow> real \<Rightarrow> real"

record mesh =
  coordinates :: "real list list"
  ufl_cell :: string
  topology_dim :: nat

datatype element =
    FiniteElement string string nat
  | MixedElement "element list"

datatype function_space = FunctionSpace mesh element

record fem_function =
  fspace :: function_space
  vec :: "real list"

type_synonym markers = "nat list"

datatype expr =
    IntValue int
  | FloatValue real
  | VecValue "real list"
  | Constant expr
  | SplitFn function_space nat
  | TestFn function_space nat
  | FacetNormal mesh
  | Identity nat
  | Expression string "(string \<times> expr) list" nat
  | Sum expr expr
  | Sub expr expr
  | Neg expr
  | Product expr expr
  | Division expr expr
  | Power expr expr
  | Abs expr
  | Dot expr expr
  | Inner expr expr
  | Outer expr expr
  | Grad expr
  | Div expr
  | Sym expr

datatype measure = Measure string "mesh option" "markers option" "nat option"

definition dx :: measure where
  "dx = Measure ''dx'' None None None"

text \<open>\<^verbatim>\<open>ds(k)\<close>: the measure restricted to the boundary part marked \<open>k\<close>.\<close>

fun subdomain :: "measure \<Rightarrow> nat \<Rightarrow> measure" where
  "subdomain (Measure ty msh dat _) k = Measure ty msh dat (Some k)"

datatype form =
    Integral expr measure
  | FormSum form form
  | FormSub form form

text \<open>The integrals of a form, in order; a subtracted form contributes its integrals
  with negated integrands.\<close>

fun integrals :: "form \<Rightarrow> (expr \<times> measure) list" where
  "integrals (Integral e m) = [(e, m)]"
| "integrals (FormSum a b) = integrals a @ integrals b"
| "integrals (FormSub a b) = integrals a @ map (\<lambda>(e, m). (Neg e, m)) (integrals b)"

section \<open>The value of an expression at a point\<close>

datatype val = Scal real | Vec "real list" | Mat "real list list"

text \<open>A point of evaluation gives the value and the gradient of every terminal
  (unknowns, test functions, the facet normal, compiled expressions).\<close>

record point =
  value_of :: "expr \<Rightarrow> val option"
  gradient_of :: "expr \<Rightarrow> val option"

definition dotl :: "real list \<Rightarrow> real list \<Rightarrow> real" where
  "dotl xs ys = sum_list (map2 (*) xs ys)"

definition same_shape :: "real list list \<Rightarrow> real list list \<Rightarrow> bool" where
  "same_shape a b = list_all2 (\<lambda>r s. length r = length s) a b"

definition square :: "real list list \<Rightarrow> bool" where
  "square a = list_all (\<lambda>r. length r = length a) a"

definition transp :: "real list list \<Rightarrow> real list list" where
  "transp a = map (\<lambda>i. map (\<lambda>r. r ! i) a) [0..<length a]"

definition identity_matrix :: "nat \<Rightarrow> real list list" where
  "identity_matrix n = map (\<lambda>i. map (\<lambda>j. if i = j then 1 else 0) [0..<n]) [0..<n]"

fun add_val :: "val \<Rightarrow> val \<Rightarrow> val option" where
  "add_val (Scal a) (Scal b) = Some (Scal (a + b))"
| "add_val (Vec x) (Vec y) =
     (if length x = length y then Some (Vec (map2 (+) x y)) else None)"
| "add_val (Mat a) (Mat b) =
     (if same_shape a b then Some (Mat (map2 (map2 (+)) a b)) else None)"
| "add_val _ _ = None"

fun scale_val :: "real \<Rightarrow> val \<Rightarrow> val" where
  "scale_val c (Scal a) = Scal (c * a)"
| "scale_val c (Vec x) = Vec (map ((*) c) x)"
| "scale_val c (Mat a) = Mat (map (map ((*) c)) a)"

text \<open>Products: every product the source forms has a scalar factor.\<close>

fun mul_val :: "val \<Rightarrow> val \<Rightarrow> val option" where
  "mul_val (Scal a) v = Some (scale_val a v)"
| "mul_val v (Scal b) = Some (scale_val b v)"
| "mul_val _ _ = None"

fun div_val :: "val \<Rightarrow> val \<Rightarrow> val option" where
  "div_val v (Scal b) = (if b = 0 then None else Some (scale_val (1 / b) v))"
| "div_val _ _ = None"

text \<open>Real powers as the floating-point \<open>pow\<close> defines them on exact reals: zero to a
  negative power and a negative base to a fractional power have no value.\<close>

definition pow_real :: "real \<Rightarrow> real \<Rightarrow> real option" where
  "pow_real a b =
     (if 0 < a then Some (a powr b)
      else if a = 0 then (if 0 < b then Some 0 else if b = 0 then Some 1 else None)
      else if b = of_int \<lfloor>b\<rfloor> then Some (a powi \<lfloor>b\<rfloor>)
      else None)"

fun pow_val :: "val \<Rightarrow> val \<Rightarrow> val option" where
  "pow_val (Scal a) (Scal b) = map_option Scal (pow_real a b)"
| "pow_val _ _ = None"

fun abs_val :: "val \<Rightarrow> val option" where
  "abs_val (Scal a) = Some (Scal \<bar>a\<bar>)"
| "abs_val _ = None"

text \<open>\<^verbatim>\<open>dot\<close> contracts the last index of the first argument with the first index of
  the second; the source contracts vectors with vectors and matrices with vectors.\<close>

fun dot_val :: "val \<Rightarrow> val \<Rightarrow> val option" where
  "dot_val (Vec x) (Vec y) =
     (if length x = length y then Some (Scal (dotl x y)) else None)"
| "dot_val (Mat a) (Vec y) =
     (if list_all (\<lambda>r. length r = length y) a then Some (Vec (map (\<lambda>r. dotl r y) a))
      else None)"
| "dot_val _ _ = None"

text \<open>\<^verbatim>\<open>inner\<close> contracts all indices of two values of the same shape.\<close>

fun inner_val :: "val \<Rightarrow> val \<Rightarrow> val option" where
  "inner_val (Scal a) (Scal b) = Some (Scal (a * b))"
| "inner_val (Vec x) (Vec y) =
     (if length x = length y then Some (Scal (dotl x y)) else None)"
| "inner_val (Mat a) (Mat b) =
     (if same_shape a b then Some (Scal (sum_list (map2 dotl a b))) else None)"
| "inner_val _ _ = None"

fun outer_val :: "val \<Rightarrow> val \<Rightarrow> val option" where
  "outer_val (Vec x) (Vec y) = Some (Mat (map (\<lambda>a. map ((*) a) y) x))"
| "outer_val _ _ = None"

text \<open>\<^verbatim>\<open>sym(A)\<close> is \<open>(A + A\<^sup>T) / 2\<close>, for a square matrix.\<close>

fun sym_val :: "val \<Rightarrow> val option" where
  "sym_val (Mat a) =
     (if square a then Some (Mat (map2 (map2 (\<lambda>x y. (x + y) / 2)) a (transp a))) else None)"
| "sym_val _ = None"

fun trace_val :: "val \<Rightarrow> val option" where
  "trace_val (Mat a) =
     (if square a then Some (Scal (sum_list (map (\<lambda>i. a ! i ! i) [0..<length a]))) else None)"
| "trace_val _ = None"

definition lift2 :: "(val \<Rightarrow> val \<Rightarrow> val option) \<Rightarrow> val option \<Rightarrow> val option \<Rightarrow> val option" where
  "lift2 f x y = (case x of None \<Rightarrow> None | Some a \<Rightarrow> (case y of None \<Rightarrow> None | Some b \<Rightarrow> f a b))"

definition lift1 :: "(val \<Rightarrow> val option) \<Rightarrow> val option \<Rightarrow> val option" where
  "lift1 f x = (case x of None \<Rightarrow> None | Some a \<Rightarrow> f a)"

fun terminal :: "expr \<Rightarrow> bool" where
  "terminal (SplitFn W i) = True"
| "terminal (TestFn W i) = True"
| "terminal (FacetNormal m) = True"
| "terminal (Expression code args deg) = True"
| "terminal _ = False"

text \<open>Derivatives are taken of terminals only, as in the source (\<^verbatim>\<open>grad(u)\<close>,
  \<^verbatim>\<open>grad(v)\<close>, \<^verbatim>\<open>div(u)\<close>, \<^verbatim>\<open>div(v)\<close>); the divergence is the trace of the gradient.\<close>

fun eval :: "point \<Rightarrow> expr \<Rightarrow> val option" where
  "eval \<rho> (IntValue i) = Some (Scal (of_int i))"
| "eval \<rho> (FloatValue r) = Some (Scal r)"
| "eval \<rho> (VecValue xs) = Some (Vec xs)"
| "eval \<rho> (Constant e) = eval \<rho> e"
| "eval \<rho> (SplitFn W i) = value_of \<rho> (SplitFn W i)"
| "eval \<rho> (TestFn W i) = value_of \<rho> (TestFn W i)"
| "eval \<rho> (FacetNormal m) = value_of \<rho> (FacetNormal m)"
| "eval \<rho> (Identity n) = Some (Mat (identity_matrix n))"
| "eval \<rho> (Expression code args deg) = value_of \<rho> (Expression code args deg)"
| "eval \<rho> (Sum a b) = lift2 add_val (eval \<rho> a) (eval \<rho> b)"
| "eval \<rho> (Sub a b) = lift2 add_val (eval \<rho> a) (map_option (scale_val (- 1)) (eval \<rho> b))"
| "eval \<rho> (Neg a) = map_option (scale_val (- 1)) (eval \<rho> a)"
| "eval \<rho> (Product a b) = lift2 mul_val (eval \<rho> a) (eval \<rho> b)"
| "eval \<rho> (Division a b) = lift2 div_val (eval \<rho> a) (eval \<rho> b)"
| "eval \<rho> (Power a b) = lift2 pow_val (eval \<rho> a) (eval \<rho> b)"
| "eval \<rho> (Abs a) = lift1 abs_val (eval \<rho> a)"
| "eval \<rho> (Dot a b) = lift2 dot_val (eval \<rho> a) (eval \<rho> b)"
| "eval \<rho> (Inner a b) = lift2 inner_val (eval \<rho> a) (eval \<rho> b)"
| "eval \<rho> (Outer a b) = lift2 outer_val (eval \<rho> a) (eval \<rho> b)"
| "eval \<rho> (Grad a) = (if terminal a then gradient_of \<rho> a else None)"
| "eval \<rho> (Div a) = (if terminal a then lift1 trace_val (gradient_of \<rho> a) else None)"
| "eval \<rho> (Sym a) = lift1 sym_val (eval \<rho> a)"

section \<open>The functions of \<^verbatim>\<open>stokes.py\<close> that build expressions\<close>

text \<open>\<^verbatim>\<open>Pi(u,nu)\<close>: \<^verbatim>\<open>un = dot(u,nu); return 0.5*(un**2.0+un*abs(un))\<close>.\<close>

definition Pi :: "expr \<Rightarrow> expr \<Rightarrow> expr" where
  "Pi u nu = (let un = Dot u nu in
     Product (FloatValue 0.5) (Sum (Power un (FloatValue 2.0)) (Product un (Abs un))))"

text \<open>\<^verbatim>\<open>dPi(u,nu)\<close>: \<^verbatim>\<open>un = dot(u,nu); return un+abs(un)\<close>.\<close>

definition dPi :: "expr \<Rightarrow> expr \<Rightarrow> expr" where
  "dPi u nu = (let un = Dot u nu in Sum un (Abs un))"

text \<open>\<^verbatim>\<open>eta(u)\<close>:
  \<^verbatim>\<open>0.5*B*((inner(sym(grad(u)),sym(grad(u)))+Constant(eps_v))**(rm2/2.0))\<close>.
  The product \<^verbatim>\<open>0.5*B\<close> and the quotient \<^verbatim>\<open>rm2/2.0\<close> are Python numbers.\<close>

definition eta :: "params \<Rightarrow> expr \<Rightarrow> expr" where
  "eta P u =
     Product (FloatValue (0.5 * B P))
       (Power (Sum (Inner (Sym (Grad u)) (Sym (Grad u))) (Constant (FloatValue (eps_v P))))
              (FloatValue (rm2 P / 2.0)))"

text \<open>\<^verbatim>\<open>sigma(u,p)\<close>: \<^verbatim>\<open>-p*Identity(2) + 2*eta(u)*sym(grad(u))\<close>.\<close>

definition sigma :: "params \<Rightarrow> expr \<Rightarrow> expr \<Rightarrow> expr" where
  "sigma P u p =
     Sum (Product (Neg p) (Identity 2))
         (Product (Product (IntValue 2) (eta P u)) (Sym (Grad u)))"

section \<open>Calls that leave the two source files\<close>

text \<open>The boundary conditions that \<^verbatim>\<open>apply_bcs\<close> returns are objects of the library whose
  construction is not in the source files.\<close>

typedecl dirichlet_bc

datatype pyvalue = PyFloat real | PyInt int | PyStr string | PyBool bool

datatype hdf5file = HDF5Handle string string

type_synonym fields =
  "real list \<times> real list \<times> real list \<times> real list \<times> real list \<times> real list \<times> real list"

text \<open>The arguments of \<^verbatim>\<open>solve(Fw == 0, w, bcs=..., solver_parameters=...,
  form_compiler_parameters=...)\<close>; the dictionaries are association lists.\<close>

record solve_call =
  equation_lhs :: form
  equation_rhs :: int
  unknown :: fem_function
  bcs :: "dirichlet_bc list"
  solver_parameters :: "(string \<times> (string \<times> pyvalue) list) list"
  form_compiler_parameters :: "(string \<times> pyvalue) list"

text \<open>What the finite-element library and the repository's modules \<^verbatim>\<open>boundary_conds\<close>,
  \<^verbatim>\<open>mesh_fcns\<close> and \<^verbatim>\<open>plotting\<close> compute is not in the source files: every such
  call is a parameter, and it may raise. \<open>solve\<close> returns the degrees of freedom it
  stores into the unknown, \<open>new_vector\<close> the initial ones of a fresh function.\<close>

record externals =
  assemble :: "form \<Rightarrow> error + real"
  mark_boundary :: "mesh \<Rightarrow> error + markers"
  apply_bcs :: "function_space \<Rightarrow> markers \<Rightarrow> error + dirichlet_bc list"
  solve :: "solve_call \<Rightarrow> error + real list"
  new_vector :: "function_space \<Rightarrow> real list"
  HDF5File :: "string \<Rightarrow> string \<Rightarrow> error + hdf5file"
  read_mesh :: "hdf5file \<Rightarrow> string \<Rightarrow> bool \<Rightarrow> error + mesh"
  read_function :: "hdf5file \<Rightarrow> fem_function \<Rightarrow> string \<Rightarrow> error + real list"
  get_fields :: "fem_function \<Rightarrow> mesh \<Rightarrow> error + fields"
  plot_fields :: "fields \<Rightarrow> nat \<Rightarrow> error + unit"

datatype event =
    MPI_gather nat
  | MPI_bcast nat
  | Call_assemble form
  | Call_mark_boundary mesh
  | Call_apply_bcs function_space markers
  | Call_solve solve_call
  | Call_HDF5File string string
  | Call_read_mesh hdf5file string bool
  | Call_read_function hdf5file fem_function string
  | Call_get_fields fem_function mesh
  | Call_plot_fields fields nat
  | Call_flush

text \<open>A run of a piece of the program: the calls it made, in order, and either the
  exception that ended it or its result.\<close>

type_synonym 'a run = "event list \<times> (error + 'a)"

definition ret :: "'a \<Rightarrow> 'a run" where
  "ret x = ([], Inr x)"

definition raise :: "error \<Rightarrow> 'a run" where
  "raise e = ([], Inl e)"

definition call :: "event \<Rightarrow> error + 'a \<Rightarrow> 'a run" where
  "call ev r = ([ev], r)"

definition bind :: "'a run \<Rightarrow> ('a \<Rightarrow> 'b run) \<Rightarrow> 'b run" where
  "bind m f =
     (case m of
        (tr, Inl e) \<Rightarrow> (tr, Inl e)
      | (tr, Inr x) \<Rightarrow> (case f x of (tr', r) \<Rightarrow> (tr @ tr', r)))"

text \<open>The message-passing calls. A process sees the other processes only through what
  they contribute to a collective call: \<open>world\<close> lists the contributions in rank order,
  and the entry of the calling process is its own argument. \<^verbatim>\<open>gather\<close> returns the
  list at the root and \<^verbatim>\<open>None\<close> elsewhere. \<^verbatim>\<open>bcast\<close> returns at every process the
  value of the root; when the root raised before it reached the call, the others wait
  forever, which is the outcome \<open>Blocked\<close>.\<close>

definition comm_gather :: "'a \<Rightarrow> nat \<Rightarrow> 'a list \<Rightarrow> nat \<Rightarrow> 'a list option" where
  "comm_gather x root_rank world rank = (if rank = root_rank then Some (world[rank := x]) else None)"

definition comm_bcast :: "'a \<Rightarrow> nat \<Rightarrow> error + 'a \<Rightarrow> nat \<Rightarrow> error + 'a" where
  "comm_bcast x root_rank at_root rank =
     (if rank = root_rank then Inr x
      else (case at_root of Inl e \<Rightarrow> Inl Blocked | Inr y \<Rightarrow> Inr y))"

subsection \<open>Array operations of \<^verbatim>\<open>numpy\<close>\<close>

definition np_concatenate :: "'a list list option \<Rightarrow> error + 'a list" where
  "np_concatenate arrs =
     (case arrs of
        None \<Rightarrow> Inl TypeError
      | Some [] \<Rightarrow> Inl ValueError
      | Some (a # as) \<Rightarrow> Inr (concat (a # as)))"

text \<open>\<^verbatim>\<open>M[:,k]\<close>: column \<open>k\<close> of a two-dimensional array.\<close>

definition column :: "nat \<Rightarrow> real list list \<Rightarrow> error + real list" where
  "column k M = (if list_all (\<lambda>r. k < length r) M then Inr (map (\<lambda>r. r ! k) M)
                 else Inl IndexError)"

text \<open>\<^verbatim>\<open>a[mask]\<close>: the entries of \<open>a\<close> where the mask holds.\<close>

definition select :: "real list \<Rightarrow> bool list \<Rightarrow> real list" where
  "select a msk = map fst (filter snd (zip a msk))"

fun np_max :: "real list \<Rightarrow> error + real" where
  "np_max [] = Inl ValueError"
| "np_max (x # xs) = Inr (fold max xs x)"

definition ravel :: "real list \<Rightarrow> real list" where
  "ravel a = a"

section \<open>\<^verbatim>\<open>weak_form\<close>\<close>

text \<open>
  Lines 43 to 54: the residual \<^verbatim>\<open>Fw\<close>, a sum and difference of thirteen integrals read
  from left to right, and two more integrals when \<^verbatim>\<open>dim != '2D'\<close>. \<open>L0\<close> and \<open>L1\<close> are
  the constants of lines 39 and 40. \<^verbatim>\<open>Vdot(lake_vol_0,t)/L1\<close> and
  \<^verbatim>\<open>Constant(Vdot(lake_vol_0,t))/L0\<close> divide by an object of the library and stay
  symbolic; \<^verbatim>\<open>1/eps_p\<close> and \<^verbatim>\<open>rho_w*g*dt\<close> are Python numbers.
\<close>

definition residual ::
  "params \<Rightarrow> expr \<Rightarrow> expr \<Rightarrow> expr \<Rightarrow> expr \<Rightarrow> expr \<Rightarrow> expr \<Rightarrow> expr \<Rightarrow> expr \<Rightarrow> expr
     \<Rightarrow> measure \<Rightarrow> expr \<Rightarrow> expr \<Rightarrow> real \<Rightarrow> real \<Rightarrow> expr \<Rightarrow> expr \<Rightarrow> form" where
  "residual P u p pw v q qw f g_lake g_cryo ds nu T lake_vol_0' t L0 L1 =
     (let Fw =
         FormSub (FormSub (FormSum (FormSum (FormSum (FormSum (FormSum (FormSum (FormSum
         (FormSum (FormSub (FormSum
           (Integral (Product (Product (IntValue 2) (eta P u))
                        (Inner (Sym (Grad u)) (Sym (Grad v)))) dx)
           (Integral (Sum (Product (Neg (Div v)) p) (Product q (Div u))) dx))
           (Integral (Inner f v) dx))
           (Integral (Product
              (Sum (Sum g_lake pw)
                   (Product (Constant (FloatValue (rho_w P * g P * dt P)))
                      (Sum (Dot u nu)
                           (Constant (Division (FloatValue (Vdot P lake_vol_0' t)) L1)))))
              (Inner nu v)) (subdomain ds 4)))
           (Integral (Product qw
              (Sum (Inner u nu) (Division (Constant (FloatValue (Vdot P lake_vol_0' t))) L0)))
              (subdomain ds 4)))
           (Integral (Product
              (Sum (Sub (Sum g_lake pw) (Constant (FloatValue (sigma_0 P))))
                   (Product (Constant (FloatValue (rho_w P * g P * dt P)))
                      (Sum (Dot u nu)
                           (Constant (Division (FloatValue (Vdot P lake_vol_0' t)) L1)))))
              (Inner nu v)) (subdomain ds 3)))
           (Integral (Product qw
              (Sum (Inner u nu) (Division (Constant (FloatValue (Vdot P lake_vol_0' t))) L0)))
              (subdomain ds 3)))
           (Integral (Product (Product (Constant (FloatValue (1 / eps_p P))) (dPi u nu))
                        (Dot v nu)) (subdomain ds 3)))
           (Integral (Product (Constant (FloatValue (C P))) (Inner (Dot T u) (Dot T v)))
              (subdomain ds 3)))
           (Integral (Product g_cryo (Inner nu v)) (subdomain ds 2)))
           (Integral (Product g_cryo (Inner nu v)) (subdomain ds 1)))
           (Integral (Inner (Dot T (Dot (sigma P u p) nu)) (Dot T v)) (subdomain ds 1)))
           (Integral (Inner (Dot T (Dot (sigma P u p) nu)) (Dot T v)) (subdomain ds 2))
      in if dim P \<noteq> ''2D''
         then FormSum Fw
                (FormSum (Integral (Product g_cryo (Inner nu v)) (subdomain ds 5))
                         (Integral (Product g_cryo (Inner nu v)) (subdomain ds 6)))
         else Fw)"

text \<open>
  \<^verbatim>\<open>weak_form\<close>: \<^verbatim>\<open>L0 = Constant(assemble(1*ds(4))+assemble(1*ds(3)))\<close>,
  \<^verbatim>\<open>L1 = Constant(assemble(1*ds(4)))\<close>, then the residual, which is returned. The
  quotient \<^verbatim>\<open>1/eps_p\<close> raises when \<^verbatim>\<open>eps_p\<close> is zero.
\<close>

definition weak_form ::
  "externals \<Rightarrow> params \<Rightarrow> expr \<Rightarrow> expr \<Rightarrow> expr \<Rightarrow> expr \<Rightarrow> expr \<Rightarrow> expr \<Rightarrow> expr \<Rightarrow> expr \<Rightarrow> expr
     \<Rightarrow> measure \<Rightarrow> expr \<Rightarrow> expr \<Rightarrow> real \<Rightarrow> real \<Rightarrow> form run" where
  "weak_form X P u p pw v q qw f g_lake g_cryo ds nu T lake_vol_0' t =
     bind (call (Call_assemble (Integral (IntValue 1) (subdomain ds 4)))
             (assemble X (Integral (IntValue 1) (subdomain ds 4)))) (\<lambda>a4.
     bind (call (Call_assemble (Integral (IntValue 1) (subdomain ds 3)))
             (assemble X (Integral (IntValue 1) (subdomain ds 3)))) (\<lambda>a3.
     let L0 = Constant (FloatValue (a4 + a3)) in
     bind (call (Call_assemble (Integral (IntValue 1) (subdomain ds 4)))
             (assemble X (Integral (IntValue 1) (subdomain ds 4)))) (\<lambda>a4'.
     let L1 = Constant (FloatValue a4') in
     if eps_p P = 0 then raise ZeroDivisionError
     else ret (residual P u p pw v q qw f g_lake g_cryo ds nu T lake_vol_0' t L0 L1))))"

section \<open>\<^verbatim>\<open>stokes_solve\<close>\<close>

text \<open>Lines 63 to 70: the elements and the mixed function space.\<close>

definition stokes_element :: "params \<Rightarrow> mesh \<Rightarrow> element" where
  "stokes_element P mesh =
     (let P1 = FiniteElement ''P'' (ufl_cell mesh) 1;
          P2 = FiniteElement ''P'' (ufl_cell mesh) 2;
          R = FiniteElement ''R'' (ufl_cell mesh) 0
      in if dim P \<noteq> ''2D''
         then MixedElement [MixedElement [P2, P2, P2], P1, R]
         else MixedElement [MixedElement [P2, P2], P1, R])"

text \<open>Lines 83 and 84, which only the process of rank 0 runs:
  \<^verbatim>\<open>M = np.concatenate(M); h0 = np.max(M[:,1][np.abs(M[:,0])<tol])\<close>.\<close>

definition root_h0 :: "params \<Rightarrow> real list list list option \<Rightarrow> error + real" where
  "root_h0 P gathered =
     (case np_concatenate gathered of
        Inl e \<Rightarrow> Inl e
      | Inr M \<Rightarrow>
          (case column 1 M of
             Inl e \<Rightarrow> Inl e
           | Inr ys \<Rightarrow>
               (case column 0 M of
                  Inl e \<Rightarrow> Inl e
                | Inr xs \<Rightarrow> np_max (select ys (map (\<lambda>x. \<bar>x\<bar> < tol P) xs)))))"

text \<open>Lines 78 to 88: the coordinates are gathered at rank 0, which computes \<open>h0\<close>;
  the other processes set \<^verbatim>\<open>h0 = None\<close>; the broadcast gives every process the
  value of rank 0.\<close>

definition stokes_h0 :: "params \<Rightarrow> real list list list \<Rightarrow> nat \<Rightarrow> mesh \<Rightarrow> real option run" where
  "stokes_h0 P world rank mesh =
     (let M = coordinates mesh in
      bind (call (MPI_gather 0) (Inr (comm_gather M 0 world rank))) (\<lambda>M.
      bind (if rank = 0
            then (case root_h0 P M of Inl e \<Rightarrow> raise e | Inr h0 \<Rightarrow> ret (Some h0))
            else ret None) (\<lambda>h0.
      call (MPI_bcast 0)
        (comm_bcast h0 0 (map_sum id Some (root_h0 P (Some (world[rank := coordinates mesh]))))
           rank))))"

text \<open>An expression argument that must be a number: \<^verbatim>\<open>None\<close> is refused.\<close>

definition float_arg :: "real option \<Rightarrow> expr run" where
  "float_arg x = (case x of None \<Rightarrow> raise TypeError | Some r \<Rightarrow> ret (FloatValue r))"

text \<open>Lines 113 to 121: the Neumann data \<^verbatim>\<open>g_lake\<close> and \<^verbatim>\<open>g_cryo\<close>.\<close>

definition stokes_g_lake :: "params \<Rightarrow> expr \<Rightarrow> expr" where
  "stokes_g_lake P s_mean =
     (if dim P \<noteq> ''2D''
      then Expression ''rho_w*g*(s_mean-x[2])''
             [(''rho_w'', FloatValue (rho_w P)), (''g'', FloatValue (g P)), (''s_mean'', s_mean)] 1
      else Expression ''rho_w*g*(s_mean-x[1])''
             [(''rho_w'', FloatValue (rho_w P)), (''g'', FloatValue (g P)), (''s_mean'', s_mean)] 1)"

definition stokes_g_cryo :: "params \<Rightarrow> real option \<Rightarrow> expr run" where
  "stokes_g_cryo P h0 =
     (if dim P \<noteq> ''2D''
      then ret (Expression ''rho_i*g*(Hght-x[2])''
             [(''rho_i'', FloatValue (rho_i P)), (''g'', FloatValue (g P)),
              (''Hght'', FloatValue (Hght P))] 1)
      else bind (float_arg h0) (\<lambda>h.
           ret (Expression ''rho_i*g*(Hght-x[1])''
             [(''rho_i'', FloatValue (rho_i P)), (''g'', FloatValue (g P)), (''Hght'', h)] 1)))"

text \<open>Lines 130 to 132: the arguments of the one call of \<^verbatim>\<open>solve\<close>.\<close>

definition stokes_solve_call :: "params \<Rightarrow> form \<Rightarrow> fem_function \<Rightarrow> dirichlet_bc list \<Rightarrow> solve_call" where
  "stokes_solve_call P Fw w bcs' =
     \<lparr> equation_lhs = Fw, equation_rhs = 0, unknown = w, bcs = bcs',
       solver_parameters =
         [(''newton_solver'',
            [(''relative_tolerance'', PyFloat (1 / 10 ^ 14)),
             (''linear_solver'', PyStr ''mumps''),
             (''maximum_iterations'', PyInt 50)])],
       form_compiler_parameters =
         [(''quadrature_degree'', PyInt (quad_degree P)),
          (''optimize'', PyBool True),
          (''eliminate_zeros'', PyBool False)] \<rparr>"

definition stokes_solve ::
  "externals \<Rightarrow> params \<Rightarrow> real list list list \<Rightarrow> nat \<Rightarrow> mesh \<Rightarrow> real \<Rightarrow> fem_function run" where
  "stokes_solve X P world rank mesh t =
     (let element = stokes_element P mesh;
          W = FunctionSpace mesh element;
          V = FunctionSpace mesh (FiniteElement ''CG'' (ufl_cell mesh) 1);
          w = \<lparr> fspace = W, vec = new_vector X W \<rparr>;
          u = SplitFn W 0; p = SplitFn W 1; pw = SplitFn W 2;
          v = TestFn W 0; q = TestFn W 1; qw = TestFn W 2
      in
      bind (stokes_h0 P world rank mesh) (\<lambda>h0.
      let f = (if dim P \<noteq> ''2D''
               then Constant (VecValue [0, 0, - rho_i P * g P])
               else Constant (VecValue [0, - rho_i P * g P]));
          d = topology_dim mesh;
          nu = FacetNormal mesh;
          I = Identity d;
          T = Sub I (Outer nu nu)
      in
      bind (call (Call_mark_boundary mesh) (mark_boundary X mesh)) (\<lambda>boundary_markers.
      let ds = Measure ''ds'' (Some mesh) (Some boundary_markers) None;
          z_expr = (if dim P \<noteq> ''2D'' then Expression ''x[2]'' [] 1
                    else Expression ''x[1]'' [] 1)
      in
      bind (call (Call_assemble (Integral z_expr (subdomain ds 4)))
              (assemble X (Integral z_expr (subdomain ds 4)))) (\<lambda>zint.
      bind (call (Call_assemble (Integral (IntValue 1) (subdomain ds 4)))
              (assemble X (Integral (IntValue 1) (subdomain ds 4)))) (\<lambda>area.
      if area = 0 then raise ZeroDivisionError
      else
      let s_mean = Constant (FloatValue (zint / area));
          g_lake = stokes_g_lake P s_mean
      in
      bind (stokes_g_cryo P h0) (\<lambda>g_cryo.
      bind (call (Call_apply_bcs W boundary_markers) (apply_bcs X W boundary_markers)) (\<lambda>bcs'.
      bind (weak_form X P u p pw v q qw f g_lake g_cryo ds nu T (lake_vol_0 P) t) (\<lambda>Fw.
      bind (call (Call_solve (stokes_solve_call P Fw w bcs'))
              (solve X (stokes_solve_call P Fw w bcs'))) (\<lambda>sol.
      ret (w\<lparr>vec := sol\<rparr>))))))))))"

section \<open>The loop of \<^verbatim>\<open>post_process.py\<close>\<close>

text \<open>\<^verbatim>\<open>str(i)\<close> for a number of \<^verbatim>\<open>range(nt)\<close>: its decimal digits.\<close>

function str :: "nat \<Rightarrow> string" where
  "str n = (if n < 10 then [''0123456789'' ! n]
            else str (n div 10) @ [''0123456789'' ! (n mod 10)])"
  by pat_completeness auto
termination
  by (relation "measure id") auto

declare str.simps [simp del]

text \<open>Lines 17 to 20: the element of the script.\<close>

definition post_process_element :: "mesh \<Rightarrow> element" where
  "post_process_element mesh =
     (let P1 = FiniteElement ''P'' (ufl_cell mesh) 1;
          P2 = FiniteElement ''P'' (ufl_cell mesh) 2;
          R = FiniteElement ''R'' (ufl_cell mesh) 0
      in MixedElement [MixedElement [P2, P2, P2], P1, R])"

text \<open>\<^verbatim>\<open>x = comm.gather(x,root=0)\<close>; \<open>peers\<close> are the arrays of all processes.\<close>

definition gather0 :: "real list \<Rightarrow> real list list \<Rightarrow> nat \<Rightarrow> real list list option run" where
  "gather0 x peers rank = call (MPI_gather 0) (Inr (comm_gather x 0 peers rank))"

text \<open>\<^verbatim>\<open>x = np.concatenate(x).ravel()\<close>.\<close>

definition concat_ravel :: "real list list option \<Rightarrow> real list run" where
  "concat_ravel x = (case np_concatenate x of Inl e \<Rightarrow> raise e | Inr a \<Rightarrow> ret (ravel a))"

text \<open>The body of the loop, for the index \<open>i\<close>. At step \<open>i\<close> the processes hold the
  fields \<open>world i\<close>, in rank order.\<close>

definition post_process_step ::
  "externals \<Rightarrow> (nat \<Rightarrow> fields list) \<Rightarrow> nat \<Rightarrow> nat \<Rightarrow> unit run" where
  "post_process_step X world rank i =
     (let name = ''./results/h5files/sol'' @ str i @ ''.h5'' in
      bind (call (Call_HDF5File name ''r'') (HDF5File X name ''r'')) (\<lambda>hdf5.
      bind (call (Call_read_mesh hdf5 ''mesh'' False) (read_mesh X hdf5 ''mesh'' False)) (\<lambda>mesh.
      let element = post_process_element mesh;
          W = FunctionSpace mesh element;
          w = \<lparr> fspace = W, vec = new_vector X W \<rparr>
      in
      bind (call (Call_read_function hdf5 w ''solution'') (read_function X hdf5 w ''solution''))
        (\<lambda>sol.
      let w = w\<lparr>vec := sol\<rparr> in
      bind (call (Call_get_fields w mesh) (get_fields X w mesh))
        (\<lambda>(h, s, wb, xh, yh, xs, ys).
      bind (gather0 h (map (\<lambda>(h, s, wb, xh, yh, xs, ys). h) (world i)) rank) (\<lambda>h.
      bind (gather0 s (map (\<lambda>(h, s, wb, xh, yh, xs, ys). s) (world i)) rank) (\<lambda>s.
      bind (gather0 wb (map (\<lambda>(h, s, wb, xh, yh, xs, ys). wb) (world i)) rank) (\<lambda>wb.
      bind (gather0 xh (map (\<lambda>(h, s, wb, xh, yh, xs, ys). xh) (world i)) rank) (\<lambda>xh.
      bind (gather0 yh (map (\<lambda>(h, s, wb, xh, yh, xs, ys). yh) (world i)) rank) (\<lambda>yh.
      bind (gather0 xs (map (\<lambda>(h, s, wb, xh, yh, xs, ys). xs) (world i)) rank) (\<lambda>xs.
      bind (gather0 ys (map (\<lambda>(h, s, wb, xh, yh, xs, ys). ys) (world i)) rank) (\<lambda>ys.
      if rank = 0
      then
        bind (concat_ravel h) (\<lambda>h.
        bind (concat_ravel s) (\<lambda>s.
        bind (concat_ravel wb) (\<lambda>wb.
        bind (concat_ravel xh) (\<lambda>xh.
        bind (concat_ravel yh) (\<lambda>yh.
        bind (concat_ravel xs) (\<lambda>xs.
        bind (concat_ravel ys) (\<lambda>ys.
        bind (call (Call_plot_fields (h, s, wb, xh, yh, xs, ys) i)
                (plot_fields X (h, s, wb, xh, yh, xs, ys) i)) (\<lambda>_.
        call Call_flush (Inr ())))))))))
      else ret ()))))))))))))"

text \<open>\<^verbatim>\<open>for i in range(nt)\<close>: the steps in order; an exception ends the loop.\<close>

fun post_process_loop ::
  "externals \<Rightarrow> (nat \<Rightarrow> fields list) \<Rightarrow> nat \<Rightarrow> nat list \<Rightarrow> unit run" where
  "post_process_loop X world rank [] = ret ()"
| "post_process_loop X world rank (i # is) =
     bind (post_process_step X world rank i) (\<lambda>_. post_process_loop X world rank is)"

definition post_process :: "externals \<Rightarrow> params \<Rightarrow> (nat \<Rightarrow> fields list) \<Rightarrow> nat \<Rightarrow> unit run" where
  "post_process X P world rank = post_process_loop X world rank [0..<nat (nt P)]"

section \<open>Integration by quadrature\<close>

text \<open>The library integrates by quadrature: a measure is a finite list of weighted
  points, and the integral of a scalar integrand is the weighted sum of its values. An
  integrand without a scalar value at some point has no integral.\<close>

type_synonym quadrature = "measure \<Rightarrow> (real \<times> point) list"

fun integrate :: "(real \<times> point) list \<Rightarrow> expr \<Rightarrow> real option" where
  "integrate [] e = Some 0"
| "integrate ((wt, \<rho>) # qs) e =
     (case eval \<rho> e of
        Some (Scal x) \<Rightarrow> map_option ((+) (wt * x)) (integrate qs e)
      | _ \<Rightarrow> None)"

fun assemble_value :: "quadrature \<Rightarrow> form \<Rightarrow> real option" where
  "assemble_value Q (Integral e m) = integrate (Q m) e"
| "assemble_value Q (FormSum a b) =
     (case assemble_value Q a of None \<Rightarrow> None
      | Some x \<Rightarrow> map_option ((+) x) (assemble_value Q b))"
| "assemble_value Q (FormSub a b) =
     (case assemble_value Q a of None \<Rightarrow> None
      | Some x \<Rightarrow> map_option ((-) x) (assemble_value Q b))"

definition quadrature_assemble :: "quadrature \<Rightarrow> form \<Rightarrow> error + real" where
  "quadrature_assemble Q F =
     (case assemble_value Q F of None \<Rightarrow> Inl (LibraryError ''assemble'') | Some x \<Rightarrow> Inr x)"

section \<open>Occurrences in expressions\<close>

text \<open>Whether an expression takes an absolute value somewhere; the code of a compiled
  \<^verbatim>\<open>Expression\<close> is not looked into.\<close>

fun uses_abs :: "expr \<Rightarrow> bool" where
  "uses_abs (Abs a) = True"
| "uses_abs (Constant a) = uses_abs a"
| "uses_abs (Sum a b) = (uses_abs a \<or> uses_abs b)"
| "uses_abs (Sub a b) = (uses_abs a \<or> uses_abs b)"
| "uses_abs (Neg a) = uses_abs a"
| "uses_abs (Product a b) = (uses_abs a \<or> uses_abs b)"
| "uses_abs (Division a b) = (uses_abs a \<or> uses_abs b)"
| "uses_abs (Power a b) = (uses_abs a \<or> uses_abs b)"
| "uses_abs (Dot a b) = (uses_abs a \<or> uses_abs b)"
| "uses_abs (Inner a b) = (uses_abs a \<or> uses_abs b)"
| "uses_abs (Outer a b) = (uses_abs a \<or> uses_abs b)"
| "uses_abs (Grad a) = uses_abs a"
| "uses_abs (Div a) = uses_abs a"
| "uses_abs (Sym a) = uses_abs a"
| "uses_abs _ = False"

text \<open>Whether the leaf \<open>x\<close> occurs in an expression.\<close>

fun mentions :: "expr \<Rightarrow> expr \<Rightarrow> bool" where
  "mentions x (Constant a) = mentions x a"
| "mentions x (Sum a b) = (mentions x a \<or> mentions x b)"
| "mentions x (Sub a b) = (mentions x a \<or> mentions x b)"
| "mentions x (Neg a) = mentions x a"
| "mentions x (Product a b) = (mentions x a \<or> mentions x b)"
| "mentions x (Division a b) = (mentions x a \<or> mentions x b)"
| "mentions x (Power a b) = (mentions x a \<or> mentions x b)"
| "mentions x (Abs a) = mentions x a"
| "mentions x (Dot a b) = (mentions x a \<or> mentions x b)"
| "mentions x (Inner a b) = (mentions x a \<or> mentions x b)"
| "mentions x (Outer a b) = (mentions x a \<or> mentions x b)"
| "mentions x (Grad a) = mentions x a"
| "mentions x (Div a) = mentions x a"
| "mentions x (Sym a) = mentions x a"
| "mentions x e = (x = e)"

section \<open>Reading a run\<close>

fun is_collective :: "event \<Rightarrow> bool" where
  "is_collective (MPI_gather r) = True"
| "is_collective (MPI_bcast r) = True"
| "is_collective _ = False"

fun is_solve :: "event \<Rightarrow> bool" where
  "is_solve (Call_solve c) = True"
| "is_solve _ = False"

text \<open>The exception with which a call outside the two files ended, if it raised.\<close>

definition failure :: "error + 'a \<Rightarrow> error option" where
  "failure r = (case r of Inl e \<Rightarrow> Some e | Inr x \<Rightarrow> None)"

fun outcome :: "externals \<Rightarrow> event \<Rightarrow> error option" where
  "outcome X (Call_assemble F) = failure (assemble X F)"
| "outcome X (Call_mark_boundary m) = failure (mark_boundary X m)"
| "outcome X (Call_apply_bcs W mk) = failure (apply_bcs X W mk)"
| "outcome X (Call_solve c) = failure (solve X c)"
| "outcome X (Call_HDF5File name mode) = failure (HDF5File X name mode)"
| "outcome X (Call_read_mesh h name b) = failure (read_mesh X h name b)"
| "outcome X (Call_read_function h w name) = failure (read_function X h w name)"
| "outcome X (Call_get_fields w m) = failure (get_fields X w m)"
| "outcome X (Call_plot_fields fs i) = failure (plot_fields X fs i)"
| "outcome X _ = None"

text \<open>A run in which no exception of a call is handled: a call that raised is the last
  call of the run, and the run ends with the exception of that call.\<close>

fun unhandled_trace :: "externals \<Rightarrow> event list \<Rightarrow> error + 'a \<Rightarrow> bool" where
  "unhandled_trace X [] r = True"
| "unhandled_trace X (ev # tr) r =
     (case outcome X ev of
        None \<Rightarrow> unhandled_trace X tr r
      | Some e \<Rightarrow> tr = [] \<and> r = Inl e)"

definition unhandled :: "externals \<Rightarrow> 'a run \<Rightarrow> bool" where
  "unhandled X m = unhandled_trace X (fst m) (snd m)"

section \<open>Concrete inputs\<close>

text \<open>A parameter set, a point and a mesh on which the theorems below are evaluated.\<close>

definition example_params :: params where
  "example_params =
     \<lparr> rho_i = 917, g = 10, tol = 1 / 2, B = 2, rm2 = - 2 / 3, rho_w = 1000, C = 1,
       eps_p = 1 / 4, eps_v = 1, dt = 1, quad_degree = 16, Lngth = 8, sigma_0 = 0,
       Hght = 4, dim = ''2D'', nt = 2, lake_vol_0 = 1, Vdot = (\<lambda>V t. 6) \<rparr>"

definition example_mesh :: mesh where
  "example_mesh =
     \<lparr> coordinates = [[0, 0], [1, 0], [0, 2]], ufl_cell = ''triangle'', topology_dim = 2 \<rparr>"

definition example_space :: function_space where
  "example_space = FunctionSpace example_mesh (stokes_element example_params example_mesh)"

text \<open>A point where the velocity is at rest and its gradient vanishes.\<close>

definition rest_point :: point where
  "rest_point =
     \<lparr> value_of = (\<lambda>e. if e = SplitFn example_space 0 then Some (Vec [0, 0]) else None),
       gradient_of = (\<lambda>e. if e = SplitFn example_space 0 then Some (Mat [[0, 0], [0, 0]])
                          else None) \<rparr>"

text \<open>A point of the lower boundary: the velocity has the given value, the outward
  normal points down, the test function is \<open>(0, 0, 1)\<close>.\<close>

definition example_point :: "real list \<Rightarrow> point" where
  "example_point uval =
     \<lparr> value_of = (\<lambda>e. case e of
          SplitFn W i \<Rightarrow> (if i = 0 then Some (Vec uval) else Some (Scal 5))
        | TestFn W i \<Rightarrow> (if i = 0 then Some (Vec [0, 0])
                         else if i = 1 then Some (Scal 0) else Some (Scal 1))
        | FacetNormal m \<Rightarrow> Some (Vec [0, - 1])
        | Expression code args deg \<Rightarrow> Some (Scal 1)
        | _ \<Rightarrow> None),
       gradient_of = (\<lambda>e. case e of
          SplitFn W i \<Rightarrow> Some (Mat [[0, 0], [0, 0]])
        | TestFn W i \<Rightarrow> Some (Mat [[0, 0], [0, 0]])
        | _ \<Rightarrow> None) \<rparr>"

text \<open>A quadrature with one point of weight 2 on the ice-water boundary, where the ice
  moves up with speed 3, and one point of weight 1 on the ice-bed boundary, where the
  ice is at rest.\<close>

fun example_quadrature :: quadrature where
  "example_quadrature (Measure ty msh dat k) =
     (if ty = ''ds'' \<and> k = Some 4 then [(2, example_point [0, 3])]
      else if ty = ''ds'' \<and> k = Some 3 then [(1, example_point [0, 0])]
      else [])"

definition example_externals :: externals where
  "example_externals =
     \<lparr> assemble = quadrature_assemble example_quadrature,
       mark_boundary = (\<lambda>m. Inr [1, 2, 3, 4]),
       apply_bcs = (\<lambda>W mk. Inr []),
       solve = (\<lambda>c. Inr [1, 2, 3]),
       new_vector = (\<lambda>W. []),
       HDF5File = (\<lambda>name mode. Inr (HDF5Handle name mode)),
       read_mesh = (\<lambda>h name b. Inr example_mesh),
       read_function = (\<lambda>h w name. Inr [1, 2, 3]),
       get_fields = (\<lambda>w m. Inr ([1], [2], [3], [4], [5], [6], [7])),
       plot_fields = (\<lambda>fs i. Inr ()) \<rparr>"

definition example_ds :: measure where
  "example_ds = Measure ''ds'' (Some example_mesh) (Some [1, 2, 3, 4]) None"

text \<open>Two processes: what the process of rank 1 contributes to the collective calls.\<close>

definition example_world :: "real list list list" where
  "example_world = [[], [[0, 5], [3, 1]]]"

definition example_fields :: "nat \<Rightarrow> fields list" where
  "example_fields i = [([], [], [], [], [], [], []), ([8], [9], [10], [11], [12], [13], [14])]"

text \<open>The same two processes seen from rank 1: its part of the mesh, and what the process
  of rank 0 contributes.\<close>

definition example_mesh_1 :: mesh where
  "example_mesh_1 =
     \<lparr> coordinates = [[0, 5], [3, 1]], ufl_cell = ''triangle'', topology_dim = 2 \<rparr>"

definition example_world_1 :: "real list list list" where
  "example_world_1 = [[[0, 0], [1, 0], [0, 2]], []]"

text \<open>Libraries in which one call raises.\<close>

definition failing_boundary :: externals where
  "failing_boundary = example_externals\<lparr>mark_boundary := (\<lambda>m. Inl (LibraryError ''markers''))\<rparr>"

definition failing_file :: externals where
  "failing_file = example_externals\<lparr>HDF5File := (\<lambda>name mode. Inl (LibraryError ''open''))\<rparr>"

text \<open>The arguments that \<^verbatim>\<open>stokes_solve\<close> passes to \<^verbatim>\<open>weak_form\<close> on the example mesh,
  and the residual that comes back: the lower boundary has measure \<open>2 + 1\<close>.\<close>

definition example_g_lake :: expr where
  "example_g_lake = stokes_g_lake example_params (Constant (FloatValue 1))"

definition example_g_cryo :: expr where
  "example_g_cryo =
     Expression ''rho_i*g*(Hght-x[1])''
       [(''rho_i'', FloatValue 917), (''g'', FloatValue 10), (''Hght'', FloatValue 5)] 1"

definition example_T :: expr where
  "example_T = Sub (Identity 2) (Outer (FacetNormal example_mesh) (FacetNormal example_mesh))"

definition example_weak_form :: "form run" where
  "example_weak_form =
     weak_form example_externals example_params
       (SplitFn example_space 0) (SplitFn example_space 1) (SplitFn example_space 2)
       (TestFn example_space 0) (TestFn example_space 1) (TestFn example_space 2)
       (Constant (VecValue [0, - 9170])) example_g_lake example_g_cryo example_ds
       (FacetNormal example_mesh) example_T 1 0"

definition example_residual :: form where
  "example_residual =
     residual example_params
       (SplitFn example_space 0) (SplitFn example_space 1) (SplitFn example_space 2)
       (TestFn example_space 0) (TestFn example_space 1) (TestFn example_space 2)
       (Constant (VecValue [0, - 9170])) example_g_lake example_g_cryo example_ds
       (FacetNormal example_mesh) example_T 1 0
       (Constant (FloatValue 3)) (Constant (FloatValue 2))"

section \<open>Test functions that single out the volume constraint\<close>

fun zero_val :: "val \<Rightarrow> bool" where
  "zero_val (Scal a) = (a = 0)"
| "zero_val (Vec x) = list_all (\<lambda>a. a = 0) x"
| "zero_val (Mat a) = list_all (list_all (\<lambda>a. a = 0)) a"




section \<open>The penalty functional and its derivative\<close>

lemma pow_real_two: "pow_real a 2 = Some (a\<^sup>2)"
proof -
  have fl: "\<lfloor>2::real\<rfloor> = 2" by simp
  show ?thesis
    unfolding pow_real_def fl by (simp add: power_int_def)
qed

lemma eval_Pi:
  assumes "eval \<rho> (Dot u nu) = Some (Scal un)"
  shows "eval \<rho> (Pi u nu) = Some (Scal (0.5 * (un\<^sup>2 + un * \<bar>un\<bar>)))"
  using assms by (simp add: Pi_def Let_def lift2_def lift1_def pow_real_two)

lemma eval_dPi:
  assumes "eval \<rho> (Dot u nu) = Some (Scal un)"
  shows "eval \<rho> (dPi u nu) = Some (Scal (un + \<bar>un\<bar>))"
  using assms by (simp add: dPi_def Let_def lift2_def lift1_def)

lemma penalty_value_cases:
  fixes un :: real
  shows "0 \<le> un \<Longrightarrow> 0.5 * (un\<^sup>2 + un * \<bar>un\<bar>) = un\<^sup>2"
    and "un \<le> 0 \<Longrightarrow> 0.5 * (un\<^sup>2 + un * \<bar>un\<bar>) = 0"
    and "0 \<le> 0.5 * (un\<^sup>2 + un * \<bar>un\<bar>)"
    and "0.5 * (un\<^sup>2 + un * \<bar>un\<bar>) = 0 \<longleftrightarrow> un \<le> 0"
proof -
  show pos: "0 \<le> un \<Longrightarrow> 0.5 * (un\<^sup>2 + un * \<bar>un\<bar>) = un\<^sup>2"
    by (simp add: power2_eq_square)
  show neg: "un \<le> 0 \<Longrightarrow> 0.5 * (un\<^sup>2 + un * \<bar>un\<bar>) = 0"
    by (simp add: power2_eq_square abs_if)
  show "0 \<le> 0.5 * (un\<^sup>2 + un * \<bar>un\<bar>)"
    using pos neg by (cases "0 \<le> un") auto
  show "0.5 * (un\<^sup>2 + un * \<bar>un\<bar>) = 0 \<longleftrightarrow> un \<le> 0"
    using pos neg by (cases "0 \<le> un") auto
qed

lemma penalty_derivative:
  "((\<lambda>x::real. 0.5 * (x\<^sup>2 + x * \<bar>x\<bar>)) has_real_derivative (un + \<bar>un\<bar>)) (at un)"
proof -
  have pos: "((\<lambda>x::real. 0.5 * (x\<^sup>2 + x * x)) has_real_derivative (un + un)) (at un)"
    by (auto intro!: derivative_eq_intros)
  have neg: "((\<lambda>x::real. 0.5 * (x\<^sup>2 - x * x)) has_real_derivative 0) (at un)"
    by (auto intro!: derivative_eq_intros)
  consider "0 < un" | "un < 0" | "un = 0" by linarith
  then show ?thesis
  proof cases
    case 1
    have "\<forall>\<^sub>F x in nhds un. 0.5 * (x\<^sup>2 + x * \<bar>x\<bar>) = 0.5 * (x\<^sup>2 + x * x)"
      using 1 by (intro eventually_nhds_in_open[of "{0<..}", THEN eventually_mono]) auto
    then show ?thesis using pos 1 by (subst DERIV_cong_ev[OF refl _ refl]) auto
  next
    case 2
    have "\<forall>\<^sub>F x in nhds un. 0.5 * (x\<^sup>2 + x * \<bar>x\<bar>) = 0.5 * (x\<^sup>2 - x * x)"
      using 2 by (intro eventually_nhds_in_open[of "{..<0}", THEN eventually_mono]) auto
    then show ?thesis using neg 2 by (subst DERIV_cong_ev[OF refl _ refl]) auto
  next
    case 3
    have lim: "(\<lambda>h::real. 0.5 * (h + \<bar>h\<bar>)) \<midarrow>0\<rightarrow> 0"
      by (auto intro!: tendsto_eq_intros)
    have "(\<lambda>h::real. (0.5 * ((0 + h)\<^sup>2 + (0 + h) * \<bar>0 + h\<bar>) - 0.5 * (0\<^sup>2 + 0 * \<bar>0\<bar>)) / h) \<midarrow>0\<rightarrow> 0"
      by (rule Lim_transform_eventually[OF lim])
         (auto simp: eventually_at_filter power2_eq_square field_simps)
    then show ?thesis
      unfolding 3 DERIV_def by simp
  qed
qed

text \<open>
  C8. Wherever the normal velocity \<^verbatim>\<open>dot(u,nu)\<close> has the real value \<open>un\<close>, the
  expression built by \<^verbatim>\<open>Pi\<close> has the value \<open>0.5 * (un\<^sup>2 + un * \<bar>un\<bar>)\<close>, which is
  \<open>un\<^sup>2\<close> for \<open>un \<ge> 0\<close> and \<open>0\<close> for \<open>un \<le> 0\<close>; it is never negative and is zero
  exactly when \<open>un \<le> 0\<close>. The expression built by \<^verbatim>\<open>dPi\<close> has the value
  \<open>un + \<bar>un\<bar> = 2 * max un 0\<close>, never negative and zero exactly when \<open>un \<le> 0\<close>, and it
  is the derivative of the former with respect to \<open>un\<close>.
\<close>

theorem penalty_functional_properties:
  assumes "eval \<rho> (Dot u nu) = Some (Scal un)"
  shows "eval \<rho> (Pi u nu) = Some (Scal (0.5 * (un\<^sup>2 + un * \<bar>un\<bar>)))
       \<and> (0 \<le> un \<longrightarrow> eval \<rho> (Pi u nu) = Some (Scal (un\<^sup>2)))
       \<and> (un \<le> 0 \<longrightarrow> eval \<rho> (Pi u nu) = Some (Scal 0))
       \<and> (\<exists>y. eval \<rho> (Pi u nu) = Some (Scal y) \<and> 0 \<le> y \<and> (y = 0 \<longleftrightarrow> un \<le> 0))
       \<and> eval \<rho> (dPi u nu) = Some (Scal (un + \<bar>un\<bar>))
       \<and> eval \<rho> (dPi u nu) = Some (Scal (2 * max un 0))
       \<and> (\<exists>y. eval \<rho> (dPi u nu) = Some (Scal y) \<and> 0 \<le> y \<and> (y = 0 \<longleftrightarrow> un \<le> 0))
       \<and> ((\<lambda>x. 0.5 * (x\<^sup>2 + x * \<bar>x\<bar>)) has_real_derivative (un + \<bar>un\<bar>)) (at un)"
proof -
  note p = eval_Pi[OF assms] and d = eval_dPi[OF assms]
  have d2: "un + \<bar>un\<bar> = 2 * max un 0" by (simp add: max_def abs_if)
  have "\<exists>y. eval \<rho> (Pi u nu) = Some (Scal y) \<and> 0 \<le> y \<and> (y = 0 \<longleftrightarrow> un \<le> 0)"
    using p penalty_value_cases(3,4)[of un] by blast
  moreover have "\<exists>y. eval \<rho> (dPi u nu) = Some (Scal y) \<and> 0 \<le> y \<and> (y = 0 \<longleftrightarrow> un \<le> 0)"
    using d by (intro exI[of _ "un + \<bar>un\<bar>"]) (auto simp: abs_if)
  ultimately show ?thesis
    using p d d2 penalty_value_cases(1,2)[of un] penalty_derivative[of un] by simp
qed

theorem penalty_functional_properties_witness:
  "eval \<lparr>value_of = (\<lambda>e. None), gradient_of = (\<lambda>e. None)\<rparr>
        (Dot (VecValue [1, 3]) (VecValue [0, - 1])) = Some (Scal (- 3))
   \<and> eval \<lparr>value_of = (\<lambda>e. None), gradient_of = (\<lambda>e. None)\<rparr>
        (Pi (VecValue [1, 3]) (VecValue [0, - 1])) = Some (Scal 0)
   \<and> eval \<lparr>value_of = (\<lambda>e. None), gradient_of = (\<lambda>e. None)\<rparr>
        (dPi (VecValue [1, 3]) (VecValue [0, - 1])) = Some (Scal 0)
   \<and> eval \<lparr>value_of = (\<lambda>e. None), gradient_of = (\<lambda>e. None)\<rparr>
        (Dot (VecValue [1, 3]) (VecValue [0, 1])) = Some (Scal 3)
   \<and> eval \<lparr>value_of = (\<lambda>e. None), gradient_of = (\<lambda>e. None)\<rparr>
        (Pi (VecValue [1, 3]) (VecValue [0, 1])) = Some (Scal 9)
   \<and> eval \<lparr>value_of = (\<lambda>e. None), gradient_of = (\<lambda>e. None)\<rparr>
        (dPi (VecValue [1, 3]) (VecValue [0, 1])) = Some (Scal 6)"
proof -
  have a: "eval \<lparr>value_of = (\<lambda>e. None), gradient_of = (\<lambda>e. None)\<rparr>
        (Dot (VecValue [1, 3]) (VecValue [0, - 1])) = Some (Scal (- 3))"
    by (simp add: lift2_def dotl_def)
  have b: "eval \<lparr>value_of = (\<lambda>e. None), gradient_of = (\<lambda>e. None)\<rparr>
        (Dot (VecValue [1, 3]) (VecValue [0, 1])) = Some (Scal 3)"
    by (simp add: lift2_def dotl_def)
  show ?thesis
    using a b penalty_functional_properties[OF a] penalty_functional_properties[OF b]
    by simp
qed

section \<open>The viscosity\<close>

lemma dotl_self_nonneg: "0 \<le> dotl xs xs"
  unfolding dotl_def by (induction xs) auto

lemma inner_self_nonneg: "0 \<le> sum_list (map2 dotl a a)"
  by (induction a) (auto simp: dotl_self_nonneg)

lemma same_shape_refl: "same_shape a a"
  unfolding same_shape_def by (simp add: list_all2_same)

lemma eval_strain_inner:
  assumes "eval \<rho> (Grad u) = Some (Mat G)" "square G"
  shows "\<exists>s. eval \<rho> (Inner (Sym (Grad u)) (Sym (Grad u))) = Some (Scal s) \<and> 0 \<le> s"
proof -
  obtain E where E: "eval \<rho> (Sym (Grad u)) = Some (Mat E)"
    using assms by (simp add: lift1_def)
  have "eval \<rho> (Inner (Sym (Grad u)) (Sym (Grad u))) = Some (Scal (sum_list (map2 dotl E E)))"
    using E by (simp add: lift2_def same_shape_refl)
  then show ?thesis using inner_self_nonneg by blast
qed

text \<open>
  C9. With \<open>eps_v > 0\<close> and \<open>B > 0\<close>, at every point where the velocity gradient is a
  square matrix (the zero matrix included), the base
  \<^verbatim>\<open>inner(sym(grad(u)),sym(grad(u)))+Constant(eps_v)\<close> of the power has a value of at
  least \<open>eps_v\<close>, hence a positive one, and the viscosity \<^verbatim>\<open>eta(u)\<close> has a value, which
  is positive, whatever the exponent \<open>rm2/2\<close> is.
\<close>

theorem eta_defined_and_positive:
  assumes "0 < eps_v P" "0 < B P" "eval \<rho> (Grad u) = Some (Mat G)" "square G"
  shows "\<exists>b y. eval \<rho> (Sum (Inner (Sym (Grad u)) (Sym (Grad u))) (Constant (FloatValue (eps_v P))))
                = Some (Scal b) \<and> eps_v P \<le> b
             \<and> eval \<rho> (eta P u) = Some (Scal y) \<and> y = 0.5 * B P * b powr (rm2 P / 2) \<and> 0 < y"
proof -
  obtain s where s: "eval \<rho> (Inner (Sym (Grad u)) (Sym (Grad u))) = Some (Scal s)" "0 \<le> s"
    using eval_strain_inner[OF assms(3,4)] by blast
  have b: "eval \<rho> (Sum (Inner (Sym (Grad u)) (Sym (Grad u))) (Constant (FloatValue (eps_v P))))
            = Some (Scal (s + eps_v P))"
    using s(1) by (simp add: lift2_def)
  have pos: "0 < s + eps_v P" using s(2) assms(1) by linarith
  have e: "eval \<rho> (eta P u) = Some (Scal (0.5 * B P * (s + eps_v P) powr (rm2 P / 2)))"
    unfolding eta_def using b pos by (simp add: lift2_def pow_real_def)
  have y: "0 < 0.5 * B P * (s + eps_v P) powr (rm2 P / 2)"
    using pos assms(2) by simp
  have le: "eps_v P \<le> s + eps_v P" using s(2) by simp
  show ?thesis
    by (intro exI[of _ "s + eps_v P"] exI[of _ "0.5 * B P * (s + eps_v P) powr (rm2 P / 2)"]
          conjI b le e y refl)
qed

theorem eta_defined_and_positive_witness:
  "0 < eps_v example_params \<and> 0 < B example_params \<and> rm2 example_params < 0
   \<and> eval rest_point (Grad (SplitFn example_space 0)) = Some (Mat [[0, 0], [0, 0]])
   \<and> square [[0, 0], [0, 0]]
   \<and> eval rest_point (eta example_params (SplitFn example_space 0)) = Some (Scal 1)"
proof -
  have h1: "0 < eps_v example_params" and h2: "0 < B example_params"
    by (simp_all add: example_params_def)
  have h3: "eval rest_point (Grad (SplitFn example_space 0)) = Some (Mat [[0, 0], [0, 0]])"
    by (simp add: rest_point_def)
  have h4: "square [[0, 0], [0, 0]]" by (simp add: square_def)
  obtain b y where
    b: "eval rest_point (Sum (Inner (Sym (Grad (SplitFn example_space 0)))
              (Sym (Grad (SplitFn example_space 0))))
           (Constant (FloatValue (eps_v example_params)))) = Some (Scal b)"
    and y: "eval rest_point (eta example_params (SplitFn example_space 0)) = Some (Scal y)"
           "y = 0.5 * B example_params * b powr (rm2 example_params / 2)"
    using eta_defined_and_positive[OF h1 h2 h3 h4] by blast
  have "b = 1"
    using b by (simp add: rest_point_def example_params_def lift2_def lift1_def square_def
        transp_def same_shape_def dotl_def)
  then have "y = 1" using y(2) by (simp add: example_params_def)
  then show ?thesis using h1 h2 h3 h4 y(1) by (simp add: example_params_def)
qed

section \<open>Runs\<close>

lemma bind_ret [simp]: "bind (ret x) f = f x"
  by (simp add: bind_def ret_def split: prod.splits)

lemma bind_raise [simp]: "bind (raise e) f = raise e"
  by (simp add: bind_def raise_def)

lemma bind_call_Inr [simp]: "bind (call ev (Inr x)) f = (ev # fst (f x), snd (f x))"
  by (simp add: bind_def call_def split: prod.splits)

lemma bind_call_Inl [simp]: "bind (call ev (Inl e)) f = ([ev], Inl e)"
  by (simp add: bind_def call_def)

lemma snd_bind_Inr:
  "snd (bind m f) = Inr y \<longleftrightarrow> (\<exists>x. snd m = Inr x \<and> snd (f x) = Inr y)"
  by (cases m) (auto simp: bind_def split: sum.splits prod.splits)

lemma snd_call [simp]: "snd (call ev r) = r" and fst_call [simp]: "fst (call ev r) = [ev]"
  by (simp_all add: call_def)

lemma snd_ret [simp]: "snd (ret x) = Inr x" and fst_ret [simp]: "fst (ret x) = []"
  by (simp_all add: ret_def)

lemma snd_raise [simp]: "snd (raise e) = Inl e" and fst_raise [simp]: "fst (raise e) = []"
  by (simp_all add: raise_def)

section \<open>The terms of the residual\<close>

lemma weak_form_Inr:
  assumes "snd (weak_form X P u p pw v q qw f g_lake g_cryo ds nu T lv t) = Inr Fw"
  shows "\<exists>a4 a3. assemble X (Integral (IntValue 1) (subdomain ds 4)) = Inr a4
           \<and> assemble X (Integral (IntValue 1) (subdomain ds 3)) = Inr a3
           \<and> eps_p P \<noteq> 0
           \<and> Fw = residual P u p pw v q qw f g_lake g_cryo ds nu T lv t
                    (Constant (FloatValue (a4 + a3))) (Constant (FloatValue a4))"
  using assms unfolding weak_form_def
  by (auto simp: snd_bind_Inr Let_def split: if_splits)

lemma subdomain_inject [simp]: "subdomain ds k = subdomain ds j \<longleftrightarrow> k = j"
  by (cases ds) simp

lemma residual_penalty:
  "filter (\<lambda>(e, m). e = Product (Product (Constant (FloatValue (1 / eps_p P))) (dPi u nu)) (Dot v nu))
     (integrals (residual P u p pw v q qw f g_lake g_cryo ds nu T lv t L0 L1))
   = [(Product (Product (Constant (FloatValue (1 / eps_p P))) (dPi u nu)) (Dot v nu), subdomain ds 3)]"
  unfolding residual_def Let_def by simp

lemma uses_abs_eta [simp]: "uses_abs (eta P u) = uses_abs u"
  by (simp add: eta_def)

lemma uses_abs_sigma [simp]: "uses_abs (sigma P u p) = (uses_abs p \<or> uses_abs u)"
  by (auto simp add: sigma_def)

lemma uses_abs_dPi [simp]: "uses_abs (dPi u nu)"
  by (simp add: dPi_def Let_def)

lemma residual_abs:
  assumes "\<not> uses_abs u" "\<not> uses_abs p" "\<not> uses_abs pw" "\<not> uses_abs v" "\<not> uses_abs q"
    "\<not> uses_abs qw" "\<not> uses_abs f" "\<not> uses_abs g_lake" "\<not> uses_abs g_cryo" "\<not> uses_abs nu"
    "\<not> uses_abs T" "\<not> uses_abs L0" "\<not> uses_abs L1"
  shows "filter (\<lambda>(e, m). uses_abs e)
     (integrals (residual P u p pw v q qw f g_lake g_cryo ds nu T lv t L0 L1))
   = [(Product (Product (Constant (FloatValue (1 / eps_p P))) (dPi u nu)) (Dot v nu), subdomain ds 3)]"
  unfolding residual_def Let_def using assms by simp

text \<open>
  C1. Whatever the arguments, a residual that \<^verbatim>\<open>weak_form\<close> returns has the penalty
  integral \<^verbatim>\<open>Constant(1/eps_p)*dPi(u,nu)*dot(v,nu)\<close>, with
  \<^verbatim>\<open>dPi(u,nu) = dot(u,nu) + abs(dot(u,nu))\<close>, exactly once, on \<^verbatim>\<open>ds(3)\<close>: on no
  other part \<^verbatim>\<open>ds(k)\<close> of the boundary. When the arguments take no absolute value
  themselves, the penalty integral is the only integral of the residual that takes one.
\<close>

theorem weak_form_penalty_on_ice_bed_only:
  assumes "snd (weak_form X P u p pw v q qw f g_lake g_cryo ds nu T lv t) = Inr Fw"
  shows "dPi u nu = Sum (Dot u nu) (Abs (Dot u nu))
       \<and> filter (\<lambda>(e, m). e = Product (Product (Constant (FloatValue (1 / eps_p P))) (dPi u nu))
                                       (Dot v nu)) (integrals Fw)
         = [(Product (Product (Constant (FloatValue (1 / eps_p P))) (dPi u nu)) (Dot v nu),
             subdomain ds 3)]
       \<and> (\<forall>k. (Product (Product (Constant (FloatValue (1 / eps_p P))) (dPi u nu)) (Dot v nu),
                subdomain ds k) \<in> set (integrals Fw) \<longleftrightarrow> k = 3)
       \<and> (\<not> uses_abs u \<and> \<not> uses_abs p \<and> \<not> uses_abs pw \<and> \<not> uses_abs v \<and> \<not> uses_abs q
            \<and> \<not> uses_abs qw \<and> \<not> uses_abs f \<and> \<not> uses_abs g_lake \<and> \<not> uses_abs g_cryo
            \<and> \<not> uses_abs nu \<and> \<not> uses_abs T
          \<longrightarrow> filter (\<lambda>(e, m). uses_abs e) (integrals Fw)
              = [(Product (Product (Constant (FloatValue (1 / eps_p P))) (dPi u nu)) (Dot v nu),
                  subdomain ds 3)])"
proof -
  let ?pen = "Product (Product (Constant (FloatValue (1 / eps_p P))) (dPi u nu)) (Dot v nu)"
  obtain a4 a3 where
    Fw: "Fw = residual P u p pw v q qw f g_lake g_cryo ds nu T lv t
                (Constant (FloatValue (a4 + a3))) (Constant (FloatValue a4))"
    using weak_form_Inr[OF assms] by blast
  have once: "filter (\<lambda>(e, m). e = ?pen) (integrals Fw) = [(?pen, subdomain ds 3)]"
    unfolding Fw by (rule residual_penalty)
  have "(?pen, subdomain ds k) \<in> set (integrals Fw) \<longleftrightarrow> k = 3" for k
  proof -
    have "(?pen, subdomain ds k) \<in> set (integrals Fw)
          \<longleftrightarrow> (?pen, subdomain ds k) \<in> set (filter (\<lambda>(e, m). e = ?pen) (integrals Fw))"
      by simp
    also have "\<dots> \<longleftrightarrow> k = 3" unfolding once by simp
    finally show ?thesis .
  qed
  moreover have "dPi u nu = Sum (Dot u nu) (Abs (Dot u nu))"
    by (simp add: dPi_def Let_def)
  moreover have "filter (\<lambda>(e, m). uses_abs e) (integrals Fw) = [(?pen, subdomain ds 3)]"
    if "\<not> uses_abs u \<and> \<not> uses_abs p \<and> \<not> uses_abs pw \<and> \<not> uses_abs v \<and> \<not> uses_abs q
            \<and> \<not> uses_abs qw \<and> \<not> uses_abs f \<and> \<not> uses_abs g_lake \<and> \<not> uses_abs g_cryo
            \<and> \<not> uses_abs nu \<and> \<not> uses_abs T"
    unfolding Fw using that by (intro residual_abs) simp_all
  ultimately show ?thesis using once by blast
qed

lemma example_assemble_lake:
  "assemble example_externals (Integral (IntValue 1) (subdomain example_ds 4)) = Inr 2"
  by (simp add: example_externals_def example_ds_def quadrature_assemble_def)

lemma example_assemble_bed:
  "assemble example_externals (Integral (IntValue 1) (subdomain example_ds 3)) = Inr 1"
  by (simp add: example_externals_def example_ds_def quadrature_assemble_def)

lemma example_weak_form_result: "snd example_weak_form = Inr example_residual"
  unfolding example_weak_form_def example_residual_def weak_form_def
  by (simp add: example_assemble_lake example_assemble_bed Let_def)
     (simp add: example_params_def)

theorem weak_form_penalty_on_ice_bed_only_witness:
  "snd example_weak_form = Inr example_residual
   \<and> \<not> uses_abs example_g_lake \<and> \<not> uses_abs example_g_cryo \<and> \<not> uses_abs example_T
   \<and> filter (\<lambda>(e, m). uses_abs e) (integrals example_residual)
     = [(Product (Product (Constant (FloatValue 4))
                    (dPi (SplitFn example_space 0) (FacetNormal example_mesh)))
           (Dot (TestFn example_space 0) (FacetNormal example_mesh)), subdomain example_ds 3)]
   \<and> (\<forall>k. (Product (Product (Constant (FloatValue 4))
                    (dPi (SplitFn example_space 0) (FacetNormal example_mesh)))
           (Dot (TestFn example_space 0) (FacetNormal example_mesh)), subdomain example_ds k)
          \<in> set (integrals example_residual) \<longleftrightarrow> k = 3)"
proof -
  have abs_free: "\<not> uses_abs example_g_lake" "\<not> uses_abs example_g_cryo" "\<not> uses_abs example_T"
    by (simp_all add: example_g_lake_def stokes_g_lake_def example_g_cryo_def example_T_def)
  have eps: "1 / eps_p example_params = 4" by (simp add: example_params_def)
  have inputs: "\<not> uses_abs (SplitFn example_space 0) \<and> \<not> uses_abs (SplitFn example_space 1)
      \<and> \<not> uses_abs (SplitFn example_space 2) \<and> \<not> uses_abs (TestFn example_space 0)
      \<and> \<not> uses_abs (TestFn example_space 1) \<and> \<not> uses_abs (TestFn example_space 2)
      \<and> \<not> uses_abs (Constant (VecValue [0, - 9170])) \<and> \<not> uses_abs example_g_lake
      \<and> \<not> uses_abs example_g_cryo \<and> \<not> uses_abs (FacetNormal example_mesh)
      \<and> \<not> uses_abs example_T"
    using abs_free by simp
  show ?thesis
    using weak_form_penalty_on_ice_bed_only
            [OF example_weak_form_result [unfolded example_weak_form_def], unfolded eps]
          inputs abs_free example_weak_form_result
    by blast
qed

section \<open>Values that vanish against the test function\<close>








lemma scale_zero_val: "zero_val (scale_val 0 a)"
  by (cases a) (auto simp: list_all_iff)























section \<open>The volume constraint\<close>


lemma mentions_eta [simp]: "terminal x \<Longrightarrow> mentions x (eta P u) = mentions x u"
  by (cases x) (simp_all add: eta_def)

lemma mentions_sigma [simp]:
  "terminal x \<Longrightarrow> mentions x (sigma P u p) = (mentions x p \<or> mentions x u)"
  by (cases x) (auto simp add: sigma_def)

lemma mentions_dPi [simp]: "mentions x (dPi u nu) = (mentions x u \<or> mentions x nu)"
  by (auto simp add: dPi_def Let_def)

lemma mentions_self: "terminal x \<Longrightarrow> mentions x x"
  by (cases x) simp_all

lemma mentions_numbers [simp]:
  "terminal x \<Longrightarrow> \<not> mentions x (IntValue i)"
  "terminal x \<Longrightarrow> \<not> mentions x (FloatValue r)"
  by (cases x; simp)+









section \<open>Runs of \<^verbatim>\<open>stokes_solve\<close>\<close>

lemma fst_bind:
  "fst (bind m f) = (case snd m of Inl e \<Rightarrow> fst m | Inr x \<Rightarrow> fst m @ fst (f x))"
  by (cases m) (auto simp: bind_def split: sum.splits prod.splits)

lemma snd_bind:
  "snd (bind m f) = (case snd m of Inl e \<Rightarrow> Inl e | Inr x \<Rightarrow> snd (f x))"
  by (cases m) (auto simp: bind_def split: sum.splits prod.splits)

lemma unhandled_trace_success:
  "unhandled_trace X tr (Inr x) \<Longrightarrow> \<forall>ev \<in> set tr. outcome X ev = None"
  by (induction tr) (auto split: option.splits)

lemma unhandled_trace_append:
  "\<forall>ev \<in> set tr. outcome X ev = None \<Longrightarrow> unhandled_trace X tr' r
     \<Longrightarrow> unhandled_trace X (tr @ tr') r"
  by (induction tr) auto

lemma unhandled_trace_Inl:
  "unhandled_trace X tr (Inl e :: error + 'a) \<Longrightarrow> unhandled_trace X tr (Inl e :: error + 'b)"
  by (induction tr) (auto split: option.splits)

lemma unhandled_bind:
  assumes "unhandled X m" and "\<And>x. snd m = Inr x \<Longrightarrow> unhandled X (f x)"
  shows "unhandled X (bind m f)"
proof (cases "snd m")
  case (Inl e)
  then show ?thesis
    using assms(1) unhandled_trace_Inl[of X "fst m" e]
    by (simp add: unhandled_def fst_bind snd_bind)
next
  case (Inr x)
  then show ?thesis
    using assms(2)[OF Inr] unhandled_trace_success[of X "fst m" x] assms(1)
    by (simp add: unhandled_def fst_bind snd_bind unhandled_trace_append)
qed

lemma unhandled_ret [simp]: "unhandled X (ret x)"
  by (simp add: unhandled_def)

lemma unhandled_raise [simp]: "unhandled X (raise e)"
  by (simp add: unhandled_def)

lemma unhandled_call:
  "outcome X ev = failure r \<Longrightarrow> unhandled X (call ev r)"
  by (cases r) (simp_all add: unhandled_def failure_def)

lemma unhandled_call_silent:
  "outcome X ev = None \<Longrightarrow> unhandled X (call ev r)"
  by (simp add: unhandled_def call_def)

lemma unhandled_if:
  "(c \<Longrightarrow> unhandled X a) \<Longrightarrow> (\<not> c \<Longrightarrow> unhandled X b) \<Longrightarrow> unhandled X (if c then a else b)"
  by simp

lemma unhandled_weak_form:
  "unhandled X (weak_form X P u p pw v q qw f g_lake g_cryo ds nu T lv t)"
  unfolding weak_form_def Let_def
  by (intro unhandled_bind unhandled_call) (simp_all)

lemma unhandled_stokes_h0: "unhandled X (stokes_h0 P world rank mesh)"
  unfolding stokes_h0_def Let_def
  by (intro unhandled_bind unhandled_call_silent unhandled_if)
     (simp_all split: sum.splits)

lemma unhandled_stokes_g_cryo: "unhandled X (stokes_g_cryo P h0)"
  unfolding stokes_g_cryo_def float_arg_def
  by (auto intro!: unhandled_bind split: option.splits)

lemma unhandled_stokes_solve: "unhandled X (stokes_solve X P world rank mesh t)"
  unfolding stokes_solve_def Let_def
  by (intro unhandled_bind unhandled_call unhandled_weak_form unhandled_stokes_h0
        unhandled_stokes_g_cryo unhandled_if)
     (simp_all)


lemma fst_weak_form_assemble:
  "ev \<in> set (fst (weak_form X P u p pw v q qw f g_lake g_cryo ds nu T lv t))
     \<Longrightarrow> \<exists>F. ev = Call_assemble F"
  unfolding weak_form_def Let_def
  by (auto simp: fst_bind split: sum.splits if_splits)

lemma filter_weak_form [simp]:
  "filter is_solve (fst (weak_form X P u p pw v q qw f g_lake g_cryo ds nu T lv t)) = []"
  "filter is_collective (fst (weak_form X P u p pw v q qw f g_lake g_cryo ds nu T lv t)) = []"
  by (auto simp: filter_empty_conv dest!: fst_weak_form_assemble)

lemma fst_stokes_h0:
  "snd (stokes_h0 P world rank mesh) = Inr h0
     \<Longrightarrow> fst (stokes_h0 P world rank mesh) = [MPI_gather 0, MPI_bcast 0]"
  unfolding stokes_h0_def Let_def
  by (auto simp: fst_bind snd_bind split: sum.splits if_splits)

lemma fst_stokes_g_cryo [simp]: "fst (stokes_g_cryo P h0) = []"
  unfolding stokes_g_cryo_def float_arg_def
  by (auto simp: fst_bind split: option.splits sum.splits)

lemma stokes_solve_success:
  assumes "snd (stokes_solve X P world rank mesh t) = Inr w"
  shows "\<exists>h0 mk f g_lake g_cryo bcs' Fw sol.
      snd (stokes_h0 P world rank mesh) = Inr h0
    \<and> mark_boundary X mesh = Inr mk
    \<and> snd (stokes_g_cryo P h0) = Inr g_cryo
    \<and> snd (weak_form X P
         (SplitFn (FunctionSpace mesh (stokes_element P mesh)) 0)
         (SplitFn (FunctionSpace mesh (stokes_element P mesh)) 1)
         (SplitFn (FunctionSpace mesh (stokes_element P mesh)) 2)
         (TestFn (FunctionSpace mesh (stokes_element P mesh)) 0)
         (TestFn (FunctionSpace mesh (stokes_element P mesh)) 1)
         (TestFn (FunctionSpace mesh (stokes_element P mesh)) 2)
         f g_lake g_cryo (Measure ''ds'' (Some mesh) (Some mk) None) (FacetNormal mesh)
         (Sub (Identity (topology_dim mesh)) (Outer (FacetNormal mesh) (FacetNormal mesh)))
         (lake_vol_0 P) t) = Inr Fw
    \<and> solve X (stokes_solve_call P Fw
          \<lparr>fspace = FunctionSpace mesh (stokes_element P mesh),
           vec = new_vector X (FunctionSpace mesh (stokes_element P mesh))\<rparr> bcs') = Inr sol
    \<and> w = \<lparr>fspace = FunctionSpace mesh (stokes_element P mesh), vec = sol\<rparr>
    \<and> filter is_solve (fst (stokes_solve X P world rank mesh t))
        = [Call_solve (stokes_solve_call P Fw
             \<lparr>fspace = FunctionSpace mesh (stokes_element P mesh),
              vec = new_vector X (FunctionSpace mesh (stokes_element P mesh))\<rparr> bcs')]
    \<and> last (fst (stokes_solve X P world rank mesh t))
        = Call_solve (stokes_solve_call P Fw
             \<lparr>fspace = FunctionSpace mesh (stokes_element P mesh),
              vec = new_vector X (FunctionSpace mesh (stokes_element P mesh))\<rparr> bcs')
    \<and> filter is_collective (fst (stokes_solve X P world rank mesh t))
        = [MPI_gather 0, MPI_bcast 0]"
  using assms unfolding stokes_solve_def Let_def
  apply (clarsimp simp: snd_bind_Inr split: if_splits)
   apply (simp_all add: fst_bind fst_stokes_h0)
   apply blast+
  done


lemma select_filter: "select (map f M) (map c M) = map f (filter c M)"
  unfolding select_def by (induction M) auto

lemma np_max_Max: "np_max xs = Inr h \<Longrightarrow> xs \<noteq> [] \<and> h = Max (set xs)"
  by (cases xs) (simp_all flip: Max.set_eq_fold)

lemma root_h0_Max:
  assumes "root_h0 P (Some Ms) = Inr h"
  shows "filter (\<lambda>r. \<bar>r ! 0\<bar> < tol P) (concat Ms) \<noteq> []
       \<and> h = Max (set (map (\<lambda>r. r ! 1) (filter (\<lambda>r. \<bar>r ! 0\<bar> < tol P) (concat Ms))))"
proof -
  from assms obtain M ys xs where M: "np_concatenate (Some Ms) = Inr M"
    and ys: "column 1 M = Inr ys" and xs: "column 0 M = Inr xs"
    and mx: "np_max (select ys (map (\<lambda>x. \<bar>x\<bar> < tol P) xs)) = Inr h"
    unfolding root_h0_def by (auto split: sum.splits)
  have "M = concat Ms" using M by (auto simp: np_concatenate_def split: list.splits)
  moreover have "ys = map (\<lambda>r. r ! 1) M" "xs = map (\<lambda>r. r ! 0) M"
    using ys xs by (auto simp: column_def split: if_splits)
  ultimately have "select ys (map (\<lambda>x. \<bar>x\<bar> < tol P) xs)
      = map (\<lambda>r. r ! 1) (filter (\<lambda>r. \<bar>r ! 0\<bar> < tol P) (concat Ms))"
    using select_filter[where f = "\<lambda>r. r ! 1" and c = "\<lambda>r. \<bar>r ! 0\<bar> < tol P" and M = M]
    by (simp add: comp_def)
  then show ?thesis using np_max_Max[OF mx] by auto
qed

lemma map_sum_Some_Inr:
  "map_sum id Some r = Inr y \<longleftrightarrow> (\<exists>h. r = Inr h \<and> y = Some h)"
  by (cases r) auto

lemma stokes_h0_value:
  assumes "snd (stokes_h0 P world rank mesh) = Inr h0"
  shows "\<exists>h. h0 = Some h \<and> root_h0 P (Some (world[rank := coordinates mesh])) = Inr h"
  using assms unfolding stokes_h0_def Let_def
  by (auto simp: snd_bind_Inr comm_gather_def comm_bcast_def map_sum_Some_Inr
        split: if_splits sum.splits)

lemma stokes_g_cryo_value:
  assumes "snd (stokes_g_cryo P (Some h)) = Inr g_cryo"
  shows "g_cryo =
     (if dim P \<noteq> ''2D''
      then Expression ''rho_i*g*(Hght-x[2])''
             [(''rho_i'', FloatValue (rho_i P)), (''g'', FloatValue (g P)),
              (''Hght'', FloatValue (Hght P))] 1
      else Expression ''rho_i*g*(Hght-x[1])''
             [(''rho_i'', FloatValue (rho_i P)), (''g'', FloatValue (g P)),
              (''Hght'', FloatValue h)] 1)"
  using assms unfolding stokes_g_cryo_def float_arg_def
  by (auto split: if_splits)

lemma example_h0:
  "root_h0 example_params (Some (example_world[0 := coordinates example_mesh])) = Inr 5"
  by (simp add: root_h0_def example_world_def example_mesh_def np_concatenate_def column_def
        select_def example_params_def)

lemma example_stokes_h0:
  "stokes_h0 example_params example_world 0 example_mesh
     = ([MPI_gather 0, MPI_bcast 0], Inr (Some 5))"
  unfolding stokes_h0_def Let_def
  by (simp add: comm_gather_def comm_bcast_def example_h0 bind_def call_def ret_def)


lemma example_params_simps:
  "dim example_params = ''2D''" "rho_i example_params = 917" "g example_params = 10"
  "lake_vol_0 example_params = 1"
  by (simp_all add: example_params_def)

lemma example_externals_simps:
  "mark_boundary example_externals m = Inr [1, 2, 3, 4]"
  "apply_bcs example_externals W mk = Inr []"
  "solve example_externals c = Inr [1, 2, 3]"
  "new_vector example_externals W = []"
  by (simp_all add: example_externals_def)

lemma example_assemble_height:
  "assemble example_externals (Integral (Expression ''x[1]'' [] 1) (subdomain example_ds 4))
     = Inr 2"
  by (simp add: example_externals_def example_ds_def quadrature_assemble_def example_point_def)

lemma example_stokes_g_cryo: "stokes_g_cryo example_params (Some 5) = ret example_g_cryo"
  by (simp add: stokes_g_cryo_def float_arg_def example_g_cryo_def example_params_def)

lemma stokes_solve_intro:
  assumes "snd (stokes_h0 P world rank mesh) = Inr h0"
    and "mark_boundary X mesh = Inr mk"
    and "assemble X (Integral (if dim P \<noteq> ''2D'' then Expression ''x[2]'' [] 1
                                else Expression ''x[1]'' [] 1)
            (subdomain (Measure ''ds'' (Some mesh) (Some mk) None) 4)) = Inr zint"
    and "assemble X (Integral (IntValue 1)
            (subdomain (Measure ''ds'' (Some mesh) (Some mk) None) 4)) = Inr area"
    and "area \<noteq> 0"
    and "snd (stokes_g_cryo P h0) = Inr g_cryo"
    and "apply_bcs X (FunctionSpace mesh (stokes_element P mesh)) mk = Inr bcs'"
    and "snd (weak_form X P
         (SplitFn (FunctionSpace mesh (stokes_element P mesh)) 0)
         (SplitFn (FunctionSpace mesh (stokes_element P mesh)) 1)
         (SplitFn (FunctionSpace mesh (stokes_element P mesh)) 2)
         (TestFn (FunctionSpace mesh (stokes_element P mesh)) 0)
         (TestFn (FunctionSpace mesh (stokes_element P mesh)) 1)
         (TestFn (FunctionSpace mesh (stokes_element P mesh)) 2)
         (if dim P \<noteq> ''2D'' then Constant (VecValue [0, 0, - rho_i P * g P])
          else Constant (VecValue [0, - rho_i P * g P]))
         (stokes_g_lake P (Constant (FloatValue (zint / area)))) g_cryo
         (Measure ''ds'' (Some mesh) (Some mk) None) (FacetNormal mesh)
         (Sub (Identity (topology_dim mesh)) (Outer (FacetNormal mesh) (FacetNormal mesh)))
         (lake_vol_0 P) t) = Inr Fw"
    and "solve X (stokes_solve_call P Fw
          \<lparr>fspace = FunctionSpace mesh (stokes_element P mesh),
           vec = new_vector X (FunctionSpace mesh (stokes_element P mesh))\<rparr> bcs') = Inr sol"
  shows "snd (stokes_solve X P world rank mesh t)
         = Inr \<lparr>fspace = FunctionSpace mesh (stokes_element P mesh), vec = sol\<rparr>"
  using assms unfolding stokes_solve_def Let_def by (simp add: snd_bind)

lemma example_stokes_solve:
  "snd (stokes_solve example_externals example_params example_world 0 example_mesh 0)
     = Inr \<lparr>fspace = example_space, vec = [1, 2, 3]\<rparr>"
  unfolding example_space_def
proof (rule stokes_solve_intro[where ?h0.0 = "Some 5" and mk = "[1, 2, 3, 4]" and zint = 2
        and area = 2 and g_cryo = example_g_cryo and bcs' = "[]" and Fw = example_residual])
  show "snd (stokes_h0 example_params example_world 0 example_mesh) = Inr (Some 5)"
    by (simp add: example_stokes_h0)
  show "snd (stokes_g_cryo example_params (Some 5)) = Inr example_g_cryo"
    by (simp add: example_stokes_g_cryo)
  show "snd (weak_form example_externals example_params
         (SplitFn (FunctionSpace example_mesh (stokes_element example_params example_mesh)) 0)
         (SplitFn (FunctionSpace example_mesh (stokes_element example_params example_mesh)) 1)
         (SplitFn (FunctionSpace example_mesh (stokes_element example_params example_mesh)) 2)
         (TestFn (FunctionSpace example_mesh (stokes_element example_params example_mesh)) 0)
         (TestFn (FunctionSpace example_mesh (stokes_element example_params example_mesh)) 1)
         (TestFn (FunctionSpace example_mesh (stokes_element example_params example_mesh)) 2)
         (if dim example_params \<noteq> ''2D''
          then Constant (VecValue [0, 0, - rho_i example_params * g example_params])
          else Constant (VecValue [0, - rho_i example_params * g example_params]))
         (stokes_g_lake example_params (Constant (FloatValue (2 / 2)))) example_g_cryo
         (Measure ''ds'' (Some example_mesh) (Some [1, 2, 3, 4]) None) (FacetNormal example_mesh)
         (Sub (Identity (topology_dim example_mesh))
              (Outer (FacetNormal example_mesh) (FacetNormal example_mesh)))
         (lake_vol_0 example_params) 0) = Inr example_residual"
    using example_weak_form_result
    by (simp add: example_weak_form_def example_space_def example_ds_def example_g_lake_def
          example_T_def example_params_simps example_mesh_def)
qed (simp_all add: example_externals_def example_params_simps quadrature_assemble_def
       example_point_def)

lemma filter_solve_stokes_h0 [simp]: "filter is_solve (fst (stokes_h0 P world rank mesh)) = []"
  unfolding stokes_h0_def Let_def
  by (auto simp: fst_bind split: sum.splits if_splits)


text \<open>
  C4. The element of \<^verbatim>\<open>stokes_solve\<close> is the mixed element of a velocity with two
  components when \<^verbatim>\<open>dim\<close> is \<^verbatim>\<open>'2D'\<close> and three otherwise, each a \<^verbatim>\<open>'P'\<close> element
  of degree 2, a pressure \<^verbatim>\<open>'P'\<close> element of degree 1 and a real \<^verbatim>\<open>'R'\<close> element
  of degree 0; the unknown handed to the solver and the function returned live in the
  function space of that element on the given mesh.
\<close>

theorem taylor_hood_elements:
  "stokes_element P mesh =
     (if dim P = ''2D''
      then MixedElement [MixedElement [FiniteElement ''P'' (ufl_cell mesh) 2,
                                       FiniteElement ''P'' (ufl_cell mesh) 2],
                         FiniteElement ''P'' (ufl_cell mesh) 1,
                         FiniteElement ''R'' (ufl_cell mesh) 0]
      else MixedElement [MixedElement [FiniteElement ''P'' (ufl_cell mesh) 2,
                                       FiniteElement ''P'' (ufl_cell mesh) 2,
                                       FiniteElement ''P'' (ufl_cell mesh) 2],
                         FiniteElement ''P'' (ufl_cell mesh) 1,
                         FiniteElement ''R'' (ufl_cell mesh) 0])
   \<and> (snd (stokes_solve X P world rank mesh t) = Inr w
      \<longrightarrow> fspace w = FunctionSpace mesh (stokes_element P mesh)
        \<and> (\<exists>c. last (fst (stokes_solve X P world rank mesh t)) = Call_solve c
               \<and> fspace (unknown c) = FunctionSpace mesh (stokes_element P mesh)))"
proof -
  have "fspace w = FunctionSpace mesh (stokes_element P mesh)
        \<and> (\<exists>c. last (fst (stokes_solve X P world rank mesh t)) = Call_solve c
               \<and> fspace (unknown c) = FunctionSpace mesh (stokes_element P mesh))"
    if "snd (stokes_solve X P world rank mesh t) = Inr w"
    using stokes_solve_success[OF that] by (auto simp: stokes_solve_call_def)
  then show ?thesis by (simp add: stokes_element_def Let_def)
qed

theorem taylor_hood_elements_witness:
  "dim example_params = ''2D''
   \<and> stokes_element example_params example_mesh
     = MixedElement [MixedElement [FiniteElement ''P'' ''triangle'' 2,
                                   FiniteElement ''P'' ''triangle'' 2],
                     FiniteElement ''P'' ''triangle'' 1, FiniteElement ''R'' ''triangle'' 0]
   \<and> stokes_element (example_params\<lparr>dim := ''3D''\<rparr>) example_mesh
     = MixedElement [MixedElement [FiniteElement ''P'' ''triangle'' 2,
                                   FiniteElement ''P'' ''triangle'' 2,
                                   FiniteElement ''P'' ''triangle'' 2],
                     FiniteElement ''P'' ''triangle'' 1, FiniteElement ''R'' ''triangle'' 0]
   \<and> snd (stokes_solve example_externals example_params example_world 0 example_mesh 0)
     = Inr \<lparr>fspace = example_space, vec = [1, 2, 3]\<rparr>
   \<and> fspace \<lparr>fspace = example_space, vec = [1, 2, 3]\<rparr>
     = FunctionSpace example_mesh (stokes_element example_params example_mesh)"
proof -
  note two = taylor_hood_elements[of example_params example_mesh example_externals
          example_world 0 0 "\<lparr>fspace = example_space, vec = [1, 2, 3]\<rparr>"]
  note three = taylor_hood_elements[of "example_params\<lparr>dim := ''3D''\<rparr>" example_mesh
          example_externals example_world 0 0 "\<lparr>fspace = example_space, vec = [1, 2, 3]\<rparr>"]
  have cell: "ufl_cell example_mesh = ''triangle''" by (simp add: example_mesh_def)
  have e2: "stokes_element example_params example_mesh
     = MixedElement [MixedElement [FiniteElement ''P'' ''triangle'' 2,
                                   FiniteElement ''P'' ''triangle'' 2],
                     FiniteElement ''P'' ''triangle'' 1, FiniteElement ''R'' ''triangle'' 0]"
    using two[THEN conjunct1] by (simp add: example_params_simps cell)
  have e3: "stokes_element (example_params\<lparr>dim := ''3D''\<rparr>) example_mesh
     = MixedElement [MixedElement [FiniteElement ''P'' ''triangle'' 2,
                                   FiniteElement ''P'' ''triangle'' 2,
                                   FiniteElement ''P'' ''triangle'' 2],
                     FiniteElement ''P'' ''triangle'' 1, FiniteElement ''R'' ''triangle'' 0]"
    using three[THEN conjunct1] by (simp add: cell)
  have sp: "fspace \<lparr>fspace = example_space, vec = [1, 2, 3]\<rparr>
     = FunctionSpace example_mesh (stokes_element example_params example_mesh)"
    using two[THEN conjunct2, rule_format, OF example_stokes_solve] by blast
  show ?thesis
    by (intro conjI example_params_simps(1) e2 e3 example_stokes_solve sp)
qed



lemma bind_pair_Inr: "bind (tr, Inr x) f = (tr @ fst (f x), snd (f x))"
  by (simp add: bind_def split: prod.splits)

lemma stokes_h0_total:
  assumes "root_h0 P (Some (world[rank := coordinates mesh])) = Inr h"
  shows "stokes_h0 P world rank mesh = ([MPI_gather 0, MPI_bcast 0], Inr (Some h))"
  using assms unfolding stokes_h0_def Let_def
  by (cases "rank = 0") (simp_all add: comm_gather_def comm_bcast_def)

lemma root_h0_total:
  assumes "Ms \<noteq> []" and "list_all (\<lambda>r. 2 \<le> length r) (concat Ms)"
    and "filter (\<lambda>r. \<bar>r ! 0\<bar> < tol P) (concat Ms) \<noteq> []"
  shows "root_h0 P (Some Ms)
         = Inr (Max (set (map (\<lambda>r. r ! 1) (filter (\<lambda>r. \<bar>r ! 0\<bar> < tol P) (concat Ms)))))"
proof -
  have c: "np_concatenate (Some Ms) = Inr (concat Ms)"
    using assms(1) by (cases Ms) (simp_all add: np_concatenate_def)
  have l1: "list_all (\<lambda>r. 1 < length r) (concat Ms)" and l0: "list_all (\<lambda>r. 0 < length r) (concat Ms)"
    using assms(2) unfolding list_all_iff by fastforce+
  have sel: "select (map (\<lambda>r. r ! 1) (concat Ms)) (map (\<lambda>x. \<bar>x\<bar> < tol P) (map (\<lambda>r. r ! 0) (concat Ms)))
      = map (\<lambda>r. r ! 1) (filter (\<lambda>r. \<bar>r ! 0\<bar> < tol P) (concat Ms))"
    using select_filter[where f = "\<lambda>r. r ! 1" and c = "\<lambda>r. \<bar>r ! 0\<bar> < tol P" and M = "concat Ms"]
    by (simp add: comp_def)
  obtain y ys where ys: "map (\<lambda>r. r ! 1) (filter (\<lambda>r. \<bar>r ! 0\<bar> < tol P) (concat Ms)) = y # ys"
    using assms(3) by (cases "filter (\<lambda>r. \<bar>r ! 0\<bar> < tol P) (concat Ms)") auto
  have "np_max (y # ys) = Inr (Max (set (y # ys)))"
    by (simp flip: Max.set_eq_fold)
  then show ?thesis
    unfolding root_h0_def c using l1 l0 sel ys
    by (simp add: column_def del: np_max.simps set_simps)
qed

lemma stokes_g_cryo_3D:
  "dim P \<noteq> ''2D'' \<Longrightarrow> stokes_g_cryo P h0 =
     ret (Expression ''rho_i*g*(Hght-x[2])''
            [(''rho_i'', FloatValue (rho_i P)), (''g'', FloatValue (g P)),
             (''Hght'', FloatValue (Hght P))] 1)"
  by (simp add: stokes_g_cryo_def)

lemma stokes_g_cryo_Some:
  "stokes_g_cryo P (Some h) =
     ret (if dim P \<noteq> ''2D''
          then Expression ''rho_i*g*(Hght-x[2])''
                 [(''rho_i'', FloatValue (rho_i P)), (''g'', FloatValue (g P)),
                  (''Hght'', FloatValue (Hght P))] 1
          else Expression ''rho_i*g*(Hght-x[1])''
                 [(''rho_i'', FloatValue (rho_i P)), (''g'', FloatValue (g P)),
                  (''Hght'', FloatValue h)] 1)"
  by (simp add: stokes_g_cryo_def float_arg_def)

lemma stokes_solve_continues:
  assumes "root_h0 P (Some (world[rank := coordinates mesh])) = Inr h"
    and "mark_boundary X mesh = Inr mk"
    and "assemble X (Integral (if dim P \<noteq> ''2D'' then Expression ''x[2]'' [] 1
                                else Expression ''x[1]'' [] 1)
            (subdomain (Measure ''ds'' (Some mesh) (Some mk) None) 4)) = Inr zint"
    and "assemble X (Integral (IntValue 1)
            (subdomain (Measure ''ds'' (Some mesh) (Some mk) None) 4)) = Inr area"
    and "area \<noteq> 0"
    and "apply_bcs X (FunctionSpace mesh (stokes_element P mesh)) mk = Inr bcs'"
  shows "stokes_solve X P world rank mesh t =
     ([MPI_gather 0, MPI_bcast 0, Call_mark_boundary mesh,
       Call_assemble (Integral (if dim P \<noteq> ''2D'' then Expression ''x[2]'' [] 1
                                else Expression ''x[1]'' [] 1)
            (subdomain (Measure ''ds'' (Some mesh) (Some mk) None) 4)),
       Call_assemble (Integral (IntValue 1)
            (subdomain (Measure ''ds'' (Some mesh) (Some mk) None) 4)),
       Call_apply_bcs (FunctionSpace mesh (stokes_element P mesh)) mk]
      @ fst (bind (weak_form X P
         (SplitFn (FunctionSpace mesh (stokes_element P mesh)) 0)
         (SplitFn (FunctionSpace mesh (stokes_element P mesh)) 1)
         (SplitFn (FunctionSpace mesh (stokes_element P mesh)) 2)
         (TestFn (FunctionSpace mesh (stokes_element P mesh)) 0)
         (TestFn (FunctionSpace mesh (stokes_element P mesh)) 1)
         (TestFn (FunctionSpace mesh (stokes_element P mesh)) 2)
         (if dim P \<noteq> ''2D'' then Constant (VecValue [0, 0, - rho_i P * g P])
          else Constant (VecValue [0, - rho_i P * g P]))
         (stokes_g_lake P (Constant (FloatValue (zint / area))))
         (if dim P \<noteq> ''2D''
          then Expression ''rho_i*g*(Hght-x[2])''
                 [(''rho_i'', FloatValue (rho_i P)), (''g'', FloatValue (g P)),
                  (''Hght'', FloatValue (Hght P))] 1
          else Expression ''rho_i*g*(Hght-x[1])''
                 [(''rho_i'', FloatValue (rho_i P)), (''g'', FloatValue (g P)),
                  (''Hght'', FloatValue h)] 1)
         (Measure ''ds'' (Some mesh) (Some mk) None) (FacetNormal mesh)
         (Sub (Identity (topology_dim mesh)) (Outer (FacetNormal mesh) (FacetNormal mesh)))
         (lake_vol_0 P) t)
        (\<lambda>Fw. bind (call (Call_solve (stokes_solve_call P Fw
                  \<lparr>fspace = FunctionSpace mesh (stokes_element P mesh),
                   vec = new_vector X (FunctionSpace mesh (stokes_element P mesh))\<rparr> bcs'))
                (solve X (stokes_solve_call P Fw
                  \<lparr>fspace = FunctionSpace mesh (stokes_element P mesh),
                   vec = new_vector X (FunctionSpace mesh (stokes_element P mesh))\<rparr> bcs')))
           (\<lambda>sol. ret \<lparr>fspace = FunctionSpace mesh (stokes_element P mesh), vec = sol\<rparr>))),
      snd (bind (weak_form X P
         (SplitFn (FunctionSpace mesh (stokes_element P mesh)) 0)
         (SplitFn (FunctionSpace mesh (stokes_element P mesh)) 1)
         (SplitFn (FunctionSpace mesh (stokes_element P mesh)) 2)
         (TestFn (FunctionSpace mesh (stokes_element P mesh)) 0)
         (TestFn (FunctionSpace mesh (stokes_element P mesh)) 1)
         (TestFn (FunctionSpace mesh (stokes_element P mesh)) 2)
         (if dim P \<noteq> ''2D'' then Constant (VecValue [0, 0, - rho_i P * g P])
          else Constant (VecValue [0, - rho_i P * g P]))
         (stokes_g_lake P (Constant (FloatValue (zint / area))))
         (if dim P \<noteq> ''2D''
          then Expression ''rho_i*g*(Hght-x[2])''
                 [(''rho_i'', FloatValue (rho_i P)), (''g'', FloatValue (g P)),
                  (''Hght'', FloatValue (Hght P))] 1
          else Expression ''rho_i*g*(Hght-x[1])''
                 [(''rho_i'', FloatValue (rho_i P)), (''g'', FloatValue (g P)),
                  (''Hght'', FloatValue h)] 1)
         (Measure ''ds'' (Some mesh) (Some mk) None) (FacetNormal mesh)
         (Sub (Identity (topology_dim mesh)) (Outer (FacetNormal mesh) (FacetNormal mesh)))
         (lake_vol_0 P) t)
        (\<lambda>Fw. bind (call (Call_solve (stokes_solve_call P Fw
                  \<lparr>fspace = FunctionSpace mesh (stokes_element P mesh),
                   vec = new_vector X (FunctionSpace mesh (stokes_element P mesh))\<rparr> bcs'))
                (solve X (stokes_solve_call P Fw
                  \<lparr>fspace = FunctionSpace mesh (stokes_element P mesh),
                   vec = new_vector X (FunctionSpace mesh (stokes_element P mesh))\<rparr> bcs')))
           (\<lambda>sol. ret \<lparr>fspace = FunctionSpace mesh (stokes_element P mesh), vec = sol\<rparr>))))"
  unfolding stokes_solve_def Let_def stokes_h0_total[OF assms(1)]
  using assms(2-6)
  by (simp add: bind_pair_Inr stokes_g_cryo_Some)

lemma returning_run_height:
  assumes "snd (stokes_solve X P world rank mesh t) = Inr w"
  shows "\<exists>h mk f g_lake bcs' Fw.
      snd (stokes_h0 P world rank mesh) = Inr (Some h)
    \<and> filter (\<lambda>r. \<bar>r ! 0\<bar> < tol P) (concat (world[rank := coordinates mesh])) \<noteq> []
    \<and> h = Max (set (map (\<lambda>r. r ! 1)
              (filter (\<lambda>r. \<bar>r ! 0\<bar> < tol P) (concat (world[rank := coordinates mesh])))))
    \<and> (\<forall>world' rank' mesh' h0'.
          world'[rank' := coordinates mesh'] = world[rank := coordinates mesh]
          \<and> snd (stokes_h0 P world' rank' mesh') = Inr h0' \<longrightarrow> h0' = Some h)
    \<and> snd (weak_form X P
         (SplitFn (FunctionSpace mesh (stokes_element P mesh)) 0)
         (SplitFn (FunctionSpace mesh (stokes_element P mesh)) 1)
         (SplitFn (FunctionSpace mesh (stokes_element P mesh)) 2)
         (TestFn (FunctionSpace mesh (stokes_element P mesh)) 0)
         (TestFn (FunctionSpace mesh (stokes_element P mesh)) 1)
         (TestFn (FunctionSpace mesh (stokes_element P mesh)) 2)
         f g_lake
         (if dim P \<noteq> ''2D''
          then Expression ''rho_i*g*(Hght-x[2])''
                 [(''rho_i'', FloatValue (rho_i P)), (''g'', FloatValue (g P)),
                  (''Hght'', FloatValue (Hght P))] 1
          else Expression ''rho_i*g*(Hght-x[1])''
                 [(''rho_i'', FloatValue (rho_i P)), (''g'', FloatValue (g P)),
                  (''Hght'', FloatValue h)] 1)
         (Measure ''ds'' (Some mesh) (Some mk) None) (FacetNormal mesh)
         (Sub (Identity (topology_dim mesh)) (Outer (FacetNormal mesh) (FacetNormal mesh)))
         (lake_vol_0 P) t) = Inr Fw
    \<and> last (fst (stokes_solve X P world rank mesh t))
        = Call_solve (stokes_solve_call P Fw
             \<lparr>fspace = FunctionSpace mesh (stokes_element P mesh),
              vec = new_vector X (FunctionSpace mesh (stokes_element P mesh))\<rparr> bcs')"
proof -
  from stokes_solve_success[OF assms] obtain h0 mk f g_lake g_cryo bcs' Fw where
    h0: "snd (stokes_h0 P world rank mesh) = Inr h0"
    and gc: "snd (stokes_g_cryo P h0) = Inr g_cryo"
    and wf: "snd (weak_form X P
         (SplitFn (FunctionSpace mesh (stokes_element P mesh)) 0)
         (SplitFn (FunctionSpace mesh (stokes_element P mesh)) 1)
         (SplitFn (FunctionSpace mesh (stokes_element P mesh)) 2)
         (TestFn (FunctionSpace mesh (stokes_element P mesh)) 0)
         (TestFn (FunctionSpace mesh (stokes_element P mesh)) 1)
         (TestFn (FunctionSpace mesh (stokes_element P mesh)) 2)
         f g_lake g_cryo (Measure ''ds'' (Some mesh) (Some mk) None) (FacetNormal mesh)
         (Sub (Identity (topology_dim mesh)) (Outer (FacetNormal mesh) (FacetNormal mesh)))
         (lake_vol_0 P) t) = Inr Fw"
    and lst: "last (fst (stokes_solve X P world rank mesh t))
        = Call_solve (stokes_solve_call P Fw
             \<lparr>fspace = FunctionSpace mesh (stokes_element P mesh),
              vec = new_vector X (FunctionSpace mesh (stokes_element P mesh))\<rparr> bcs')"
    by blast
  obtain h where h: "h0 = Some h"
    and root: "root_h0 P (Some (world[rank := coordinates mesh])) = Inr h"
    using stokes_h0_value[OF h0] by blast
  note mx = root_h0_Max[OF root]
  have same: "h0' = Some h"
    if "world'[rank' := coordinates mesh'] = world[rank := coordinates mesh]
        \<and> snd (stokes_h0 P world' rank' mesh') = Inr h0'" for world' rank' mesh' h0'
    using stokes_h0_value[of P world' rank' mesh' h0'] that root by auto
  note g = stokes_g_cryo_value[OF gc[unfolded h]]
  show ?thesis
    apply (rule exI[of _ h], rule exI[of _ mk], rule exI[of _ f], rule exI[of _ g_lake],
           rule exI[of _ bcs'], rule exI[of _ Fw])
    apply (intro conjI)
    subgoal using h0 h by simp
    subgoal using mx by simp
    subgoal using mx by simp
    subgoal using same by blast
    subgoal using wf unfolding g .
    subgoal by (rule lst)
    done
qed

text \<open>
  C10. The broadcast gives every process the value of rank 0, and the run of lines 78 to
  88 returns on every process as soon as rank 0 finds a vertex: when the gathered
  coordinates have a vertex whose first coordinate is smaller than \<open>tol\<close> in absolute
  value, the process of any rank holds, after one gather and one broadcast, the largest
  second coordinate \<open>h0\<close> among these vertices, and any two processes that
  contribute to the same gathered coordinates hold the same value. The side-wall
  condition \<^verbatim>\<open>g_cryo\<close> has \<^verbatim>\<open>Hght = h0\<close> when \<^verbatim>\<open>dim\<close> is \<^verbatim>\<open>'2D'\<close>; otherwise it
  has the parameter \<^verbatim>\<open>Hght\<close>, whatever \<open>h0\<close> is. Once the boundary is marked, the
  mean lake height assembled and the boundary conditions applied, \<^verbatim>\<open>stokes_solve\<close>
  goes on as \<^verbatim>\<open>weak_form\<close> called with this \<^verbatim>\<open>g_cryo\<close>, followed by the solver, whether
  or not these return; and a run that returns has handed the residual of that call to
  the solver.
\<close>

theorem cryostatic_height:
  "(root_h0 P (Some (world[rank := coordinates mesh])) = Inr h \<longrightarrow>
      stokes_h0 P world rank mesh = ([MPI_gather 0, MPI_bcast 0], Inr (Some h))
    \<and> filter (\<lambda>r. \<bar>r ! 0\<bar> < tol P) (concat (world[rank := coordinates mesh])) \<noteq> []
    \<and> h = Max (set (map (\<lambda>r. r ! 1) (filter (\<lambda>r. \<bar>r ! 0\<bar> < tol P) (concat (world[rank := coordinates mesh])))))
    \<and> (world'[rank' := coordinates mesh'] = world[rank := coordinates mesh] \<longrightarrow>
        stokes_h0 P world' rank' mesh' = ([MPI_gather 0, MPI_bcast 0], Inr (Some h))))
   \<and> (world[rank := coordinates mesh] \<noteq> []
       \<and> list_all (\<lambda>r. 2 \<le> length r) (concat (world[rank := coordinates mesh]))
       \<and> filter (\<lambda>r. \<bar>r ! 0\<bar> < tol P) (concat (world[rank := coordinates mesh])) \<noteq> []
      \<longrightarrow> stokes_h0 P world rank mesh
          = ([MPI_gather 0, MPI_bcast 0], Inr (Some (Max (set (map (\<lambda>r. r ! 1) (filter (\<lambda>r. \<bar>r ! 0\<bar> < tol P) (concat (world[rank := coordinates mesh])))))))))
   \<and> (snd (stokes_h0 P world rank mesh) = Inr h0 \<longrightarrow>
        (\<exists>hr. h0 = Some hr \<and> root_h0 P (Some (world[rank := coordinates mesh])) = Inr hr))
   \<and> stokes_g_cryo P (Some h) =
        ret (if dim P \<noteq> ''2D''
             then Expression ''rho_i*g*(Hght-x[2])''
              [(''rho_i'', FloatValue (rho_i P)), (''g'', FloatValue (g P)),
               (''Hght'', FloatValue (Hght P))] 1
             else Expression ''rho_i*g*(Hght-x[1])''
              [(''rho_i'', FloatValue (rho_i P)), (''g'', FloatValue (g P)),
               (''Hght'', FloatValue h)] 1)
   \<and> (dim P \<noteq> ''2D'' \<longrightarrow> stokes_g_cryo P h0 = ret (Expression ''rho_i*g*(Hght-x[2])''
              [(''rho_i'', FloatValue (rho_i P)), (''g'', FloatValue (g P)),
               (''Hght'', FloatValue (Hght P))] 1))
   \<and> (root_h0 P (Some (world[rank := coordinates mesh])) = Inr h
       \<and> mark_boundary X mesh = Inr mk
       \<and> assemble X (Integral (if dim P \<noteq> ''2D'' then Expression ''x[2]'' [] 1
                                  else Expression ''x[1]'' [] 1)
            (subdomain (Measure ''ds'' (Some mesh) (Some mk) None) 4)) = Inr zint
       \<and> assemble X (Integral (IntValue 1)
            (subdomain (Measure ''ds'' (Some mesh) (Some mk) None) 4)) = Inr area
       \<and> area \<noteq> 0
       \<and> apply_bcs X (FunctionSpace mesh (stokes_element P mesh)) mk = Inr bcs'
      \<longrightarrow> stokes_solve X P world rank mesh t =
     ([MPI_gather 0, MPI_bcast 0, Call_mark_boundary mesh,
       Call_assemble (Integral (if dim P \<noteq> ''2D'' then Expression ''x[2]'' [] 1
                                else Expression ''x[1]'' [] 1)
            (subdomain (Measure ''ds'' (Some mesh) (Some mk) None) 4)),
       Call_assemble (Integral (IntValue 1)
            (subdomain (Measure ''ds'' (Some mesh) (Some mk) None) 4)),
       Call_apply_bcs (FunctionSpace mesh (stokes_element P mesh)) mk]
      @ fst (bind (weak_form X P
         (SplitFn (FunctionSpace mesh (stokes_element P mesh)) 0)
         (SplitFn (FunctionSpace mesh (stokes_element P mesh)) 1)
         (SplitFn (FunctionSpace mesh (stokes_element P mesh)) 2)
         (TestFn (FunctionSpace mesh (stokes_element P mesh)) 0)
         (TestFn (FunctionSpace mesh (stokes_element P mesh)) 1)
         (TestFn (FunctionSpace mesh (stokes_element P mesh)) 2)
         (if dim P \<noteq> ''2D'' then Constant (VecValue [0, 0, - rho_i P * g P])
          else Constant (VecValue [0, - rho_i P * g P]))
         (stokes_g_lake P (Constant (FloatValue (zint / area))))
         (if dim P \<noteq> ''2D''
          then Expression ''rho_i*g*(Hght-x[2])''
                 [(''rho_i'', FloatValue (rho_i P)), (''g'', FloatValue (g P)),
                  (''Hght'', FloatValue (Hght P))] 1
          else Expression ''rho_i*g*(Hght-x[1])''
                 [(''rho_i'', FloatValue (rho_i P)), (''g'', FloatValue (g P)),
                  (''Hght'', FloatValue h)] 1)
         (Measure ''ds'' (Some mesh) (Some mk) None) (FacetNormal mesh)
         (Sub (Identity (topology_dim mesh)) (Outer (FacetNormal mesh) (FacetNormal mesh)))
         (lake_vol_0 P) t)
        (\<lambda>Fw. bind (call (Call_solve (stokes_solve_call P Fw
                  \<lparr>fspace = FunctionSpace mesh (stokes_element P mesh),
                   vec = new_vector X (FunctionSpace mesh (stokes_element P mesh))\<rparr> bcs'))
                (solve X (stokes_solve_call P Fw
                  \<lparr>fspace = FunctionSpace mesh (stokes_element P mesh),
                   vec = new_vector X (FunctionSpace mesh (stokes_element P mesh))\<rparr> bcs')))
           (\<lambda>sol. ret \<lparr>fspace = FunctionSpace mesh (stokes_element P mesh), vec = sol\<rparr>))),
      snd (bind (weak_form X P
         (SplitFn (FunctionSpace mesh (stokes_element P mesh)) 0)
         (SplitFn (FunctionSpace mesh (stokes_element P mesh)) 1)
         (SplitFn (FunctionSpace mesh (stokes_element P mesh)) 2)
         (TestFn (FunctionSpace mesh (stokes_element P mesh)) 0)
         (TestFn (FunctionSpace mesh (stokes_element P mesh)) 1)
         (TestFn (FunctionSpace mesh (stokes_element P mesh)) 2)
         (if dim P \<noteq> ''2D'' then Constant (VecValue [0, 0, - rho_i P * g P])
          else Constant (VecValue [0, - rho_i P * g P]))
         (stokes_g_lake P (Constant (FloatValue (zint / area))))
         (if dim P \<noteq> ''2D''
          then Expression ''rho_i*g*(Hght-x[2])''
                 [(''rho_i'', FloatValue (rho_i P)), (''g'', FloatValue (g P)),
                  (''Hght'', FloatValue (Hght P))] 1
          else Expression ''rho_i*g*(Hght-x[1])''
                 [(''rho_i'', FloatValue (rho_i P)), (''g'', FloatValue (g P)),
                  (''Hght'', FloatValue h)] 1)
         (Measure ''ds'' (Some mesh) (Some mk) None) (FacetNormal mesh)
         (Sub (Identity (topology_dim mesh)) (Outer (FacetNormal mesh) (FacetNormal mesh)))
         (lake_vol_0 P) t)
        (\<lambda>Fw. bind (call (Call_solve (stokes_solve_call P Fw
                  \<lparr>fspace = FunctionSpace mesh (stokes_element P mesh),
                   vec = new_vector X (FunctionSpace mesh (stokes_element P mesh))\<rparr> bcs'))
                (solve X (stokes_solve_call P Fw
                  \<lparr>fspace = FunctionSpace mesh (stokes_element P mesh),
                   vec = new_vector X (FunctionSpace mesh (stokes_element P mesh))\<rparr> bcs')))
           (\<lambda>sol. ret \<lparr>fspace = FunctionSpace mesh (stokes_element P mesh), vec = sol\<rparr>)))))
   \<and> (snd (stokes_solve X P world rank mesh t) = Inr w \<longrightarrow>
       (\<exists>h mk f g_lake bcs' Fw.
      snd (stokes_h0 P world rank mesh) = Inr (Some h)
    \<and> filter (\<lambda>r. \<bar>r ! 0\<bar> < tol P) (concat (world[rank := coordinates mesh])) \<noteq> []
    \<and> h = Max (set (map (\<lambda>r. r ! 1)
              (filter (\<lambda>r. \<bar>r ! 0\<bar> < tol P) (concat (world[rank := coordinates mesh])))))
    \<and> (\<forall>world' rank' mesh' h0'.
          world'[rank' := coordinates mesh'] = world[rank := coordinates mesh]
          \<and> snd (stokes_h0 P world' rank' mesh') = Inr h0' \<longrightarrow> h0' = Some h)
    \<and> snd (weak_form X P
         (SplitFn (FunctionSpace mesh (stokes_element P mesh)) 0)
         (SplitFn (FunctionSpace mesh (stokes_element P mesh)) 1)
         (SplitFn (FunctionSpace mesh (stokes_element P mesh)) 2)
         (TestFn (FunctionSpace mesh (stokes_element P mesh)) 0)
         (TestFn (FunctionSpace mesh (stokes_element P mesh)) 1)
         (TestFn (FunctionSpace mesh (stokes_element P mesh)) 2)
         f g_lake
         (if dim P \<noteq> ''2D''
          then Expression ''rho_i*g*(Hght-x[2])''
                 [(''rho_i'', FloatValue (rho_i P)), (''g'', FloatValue (g P)),
                  (''Hght'', FloatValue (Hght P))] 1
          else Expression ''rho_i*g*(Hght-x[1])''
                 [(''rho_i'', FloatValue (rho_i P)), (''g'', FloatValue (g P)),
                  (''Hght'', FloatValue h)] 1)
         (Measure ''ds'' (Some mesh) (Some mk) None) (FacetNormal mesh)
         (Sub (Identity (topology_dim mesh)) (Outer (FacetNormal mesh) (FacetNormal mesh)))
         (lake_vol_0 P) t) = Inr Fw
    \<and> last (fst (stokes_solve X P world rank mesh t))
        = Call_solve (stokes_solve_call P Fw
             \<lparr>fspace = FunctionSpace mesh (stokes_element P mesh),
              vec = new_vector X (FunctionSpace mesh (stokes_element P mesh))\<rparr> bcs')))"
proof -
  have A: "stokes_h0 P world rank mesh = ([MPI_gather 0, MPI_bcast 0], Inr (Some h))
    \<and> filter (\<lambda>r. \<bar>r ! 0\<bar> < tol P) (concat (world[rank := coordinates mesh])) \<noteq> []
    \<and> h = Max (set (map (\<lambda>r. r ! 1) (filter (\<lambda>r. \<bar>r ! 0\<bar> < tol P) (concat (world[rank := coordinates mesh])))))
    \<and> (world'[rank' := coordinates mesh'] = world[rank := coordinates mesh] \<longrightarrow>
        stokes_h0 P world' rank' mesh' = ([MPI_gather 0, MPI_bcast 0], Inr (Some h)))"
    if r: "root_h0 P (Some (world[rank := coordinates mesh])) = Inr h"
  proof -
    have "stokes_h0 P world' rank' mesh' = ([MPI_gather 0, MPI_bcast 0], Inr (Some h))"
      if "world'[rank' := coordinates mesh'] = world[rank := coordinates mesh]"
      using stokes_h0_total[of P world' rank' mesh' h] r that by simp
    then show ?thesis
      using stokes_h0_total[OF r] root_h0_Max[OF r] by blast
  qed
  have B: "stokes_h0 P world rank mesh
          = ([MPI_gather 0, MPI_bcast 0], Inr (Some (Max (set (map (\<lambda>r. r ! 1) (filter (\<lambda>r. \<bar>r ! 0\<bar> < tol P) (concat (world[rank := coordinates mesh]))))))))"
    if "world[rank := coordinates mesh] \<noteq> []
       \<and> list_all (\<lambda>r. 2 \<le> length r) (concat (world[rank := coordinates mesh]))
       \<and> filter (\<lambda>r. \<bar>r ! 0\<bar> < tol P) (concat (world[rank := coordinates mesh])) \<noteq> []"
    using that by (intro stokes_h0_total root_h0_total) simp_all
  have C: "\<exists>hr. h0 = Some hr \<and> root_h0 P (Some (world[rank := coordinates mesh])) = Inr hr"
    if "snd (stokes_h0 P world rank mesh) = Inr h0"
    using stokes_h0_value[OF that] .
  have E: "stokes_solve X P world rank mesh t =
     ([MPI_gather 0, MPI_bcast 0, Call_mark_boundary mesh,
       Call_assemble (Integral (if dim P \<noteq> ''2D'' then Expression ''x[2]'' [] 1
                                else Expression ''x[1]'' [] 1)
            (subdomain (Measure ''ds'' (Some mesh) (Some mk) None) 4)),
       Call_assemble (Integral (IntValue 1)
            (subdomain (Measure ''ds'' (Some mesh) (Some mk) None) 4)),
       Call_apply_bcs (FunctionSpace mesh (stokes_element P mesh)) mk]
      @ fst (bind (weak_form X P
         (SplitFn (FunctionSpace mesh (stokes_element P mesh)) 0)
         (SplitFn (FunctionSpace mesh (stokes_element P mesh)) 1)
         (SplitFn (FunctionSpace mesh (stokes_element P mesh)) 2)
         (TestFn (FunctionSpace mesh (stokes_element P mesh)) 0)
         (TestFn (FunctionSpace mesh (stokes_element P mesh)) 1)
         (TestFn (FunctionSpace mesh (stokes_element P mesh)) 2)
         (if dim P \<noteq> ''2D'' then Constant (VecValue [0, 0, - rho_i P * g P])
          else Constant (VecValue [0, - rho_i P * g P]))
         (stokes_g_lake P (Constant (FloatValue (zint / area))))
         (if dim P \<noteq> ''2D''
          then Expression ''rho_i*g*(Hght-x[2])''
                 [(''rho_i'', FloatValue (rho_i P)), (''g'', FloatValue (g P)),
                  (''Hght'', FloatValue (Hght P))] 1
          else Expression ''rho_i*g*(Hght-x[1])''
                 [(''rho_i'', FloatValue (rho_i P)), (''g'', FloatValue (g P)),
                  (''Hght'', FloatValue h)] 1)
         (Measure ''ds'' (Some mesh) (Some mk) None) (FacetNormal mesh)
         (Sub (Identity (topology_dim mesh)) (Outer (FacetNormal mesh) (FacetNormal mesh)))
         (lake_vol_0 P) t)
        (\<lambda>Fw. bind (call (Call_solve (stokes_solve_call P Fw
                  \<lparr>fspace = FunctionSpace mesh (stokes_element P mesh),
                   vec = new_vector X (FunctionSpace mesh (stokes_element P mesh))\<rparr> bcs'))
                (solve X (stokes_solve_call P Fw
                  \<lparr>fspace = FunctionSpace mesh (stokes_element P mesh),
                   vec = new_vector X (FunctionSpace mesh (stokes_element P mesh))\<rparr> bcs')))
           (\<lambda>sol. ret \<lparr>fspace = FunctionSpace mesh (stokes_element P mesh), vec = sol\<rparr>))),
      snd (bind (weak_form X P
         (SplitFn (FunctionSpace mesh (stokes_element P mesh)) 0)
         (SplitFn (FunctionSpace mesh (stokes_element P mesh)) 1)
         (SplitFn (FunctionSpace mesh (stokes_element P mesh)) 2)
         (TestFn (FunctionSpace mesh (stokes_element P mesh)) 0)
         (TestFn (FunctionSpace mesh (stokes_element P mesh)) 1)
         (TestFn (FunctionSpace mesh (stokes_element P mesh)) 2)
         (if dim P \<noteq> ''2D'' then Constant (VecValue [0, 0, - rho_i P * g P])
          else Constant (VecValue [0, - rho_i P * g P]))
         (stokes_g_lake P (Constant (FloatValue (zint / area))))
         (if dim P \<noteq> ''2D''
          then Expression ''rho_i*g*(Hght-x[2])''
                 [(''rho_i'', FloatValue (rho_i P)), (''g'', FloatValue (g P)),
                  (''Hght'', FloatValue (Hght P))] 1
          else Expression ''rho_i*g*(Hght-x[1])''
                 [(''rho_i'', FloatValue (rho_i P)), (''g'', FloatValue (g P)),
                  (''Hght'', FloatValue h)] 1)
         (Measure ''ds'' (Some mesh) (Some mk) None) (FacetNormal mesh)
         (Sub (Identity (topology_dim mesh)) (Outer (FacetNormal mesh) (FacetNormal mesh)))
         (lake_vol_0 P) t)
        (\<lambda>Fw. bind (call (Call_solve (stokes_solve_call P Fw
                  \<lparr>fspace = FunctionSpace mesh (stokes_element P mesh),
                   vec = new_vector X (FunctionSpace mesh (stokes_element P mesh))\<rparr> bcs'))
                (solve X (stokes_solve_call P Fw
                  \<lparr>fspace = FunctionSpace mesh (stokes_element P mesh),
                   vec = new_vector X (FunctionSpace mesh (stokes_element P mesh))\<rparr> bcs')))
           (\<lambda>sol. ret \<lparr>fspace = FunctionSpace mesh (stokes_element P mesh), vec = sol\<rparr>))))"
    if "root_h0 P (Some (world[rank := coordinates mesh])) = Inr h
       \<and> mark_boundary X mesh = Inr mk
       \<and> assemble X (Integral (if dim P \<noteq> ''2D'' then Expression ''x[2]'' [] 1
                                  else Expression ''x[1]'' [] 1)
            (subdomain (Measure ''ds'' (Some mesh) (Some mk) None) 4)) = Inr zint
       \<and> assemble X (Integral (IntValue 1)
            (subdomain (Measure ''ds'' (Some mesh) (Some mk) None) 4)) = Inr area
       \<and> area \<noteq> 0
       \<and> apply_bcs X (FunctionSpace mesh (stokes_element P mesh)) mk = Inr bcs'"
    using that by (intro stokes_solve_continues) simp_all
  have F: "\<exists>h mk f g_lake bcs' Fw.
      snd (stokes_h0 P world rank mesh) = Inr (Some h)
    \<and> filter (\<lambda>r. \<bar>r ! 0\<bar> < tol P) (concat (world[rank := coordinates mesh])) \<noteq> []
    \<and> h = Max (set (map (\<lambda>r. r ! 1)
              (filter (\<lambda>r. \<bar>r ! 0\<bar> < tol P) (concat (world[rank := coordinates mesh])))))
    \<and> (\<forall>world' rank' mesh' h0'.
          world'[rank' := coordinates mesh'] = world[rank := coordinates mesh]
          \<and> snd (stokes_h0 P world' rank' mesh') = Inr h0' \<longrightarrow> h0' = Some h)
    \<and> snd (weak_form X P
         (SplitFn (FunctionSpace mesh (stokes_element P mesh)) 0)
         (SplitFn (FunctionSpace mesh (stokes_element P mesh)) 1)
         (SplitFn (FunctionSpace mesh (stokes_element P mesh)) 2)
         (TestFn (FunctionSpace mesh (stokes_element P mesh)) 0)
         (TestFn (FunctionSpace mesh (stokes_element P mesh)) 1)
         (TestFn (FunctionSpace mesh (stokes_element P mesh)) 2)
         f g_lake
         (if dim P \<noteq> ''2D''
          then Expression ''rho_i*g*(Hght-x[2])''
                 [(''rho_i'', FloatValue (rho_i P)), (''g'', FloatValue (g P)),
                  (''Hght'', FloatValue (Hght P))] 1
          else Expression ''rho_i*g*(Hght-x[1])''
                 [(''rho_i'', FloatValue (rho_i P)), (''g'', FloatValue (g P)),
                  (''Hght'', FloatValue h)] 1)
         (Measure ''ds'' (Some mesh) (Some mk) None) (FacetNormal mesh)
         (Sub (Identity (topology_dim mesh)) (Outer (FacetNormal mesh) (FacetNormal mesh)))
         (lake_vol_0 P) t) = Inr Fw
    \<and> last (fst (stokes_solve X P world rank mesh t))
        = Call_solve (stokes_solve_call P Fw
             \<lparr>fspace = FunctionSpace mesh (stokes_element P mesh),
              vec = new_vector X (FunctionSpace mesh (stokes_element P mesh))\<rparr> bcs')"
    if "snd (stokes_solve X P world rank mesh t) = Inr w"
    by (rule returning_run_height[OF that])
  show ?thesis
    apply (intro conjI impI)
    subgoal using A by blast
    subgoal using A by blast
    subgoal using A by blast
    subgoal using A by blast
    subgoal using B by blast
    subgoal using C by blast
    subgoal by (rule stokes_g_cryo_Some)
    subgoal by (rule stokes_g_cryo_3D)
    subgoal using E by blast
    subgoal using F by blast
    done
qed

lemma example_weak_form_any:
  "snd (weak_form example_externals example_params u p pw v q qw f g_lake g_cryo
          (Measure ''ds'' msh dat None) nu T lv t)
   = Inr (residual example_params u p pw v q qw f g_lake g_cryo
            (Measure ''ds'' msh dat None) nu T lv t
            (Constant (FloatValue 3)) (Constant (FloatValue 2)))"
proof -
  have eps: "eps_p example_params \<noteq> 0" by (simp add: example_params_def)
  have a4: "assemble example_externals
              (Integral (IntValue 1) (Measure ''ds'' msh dat (Some 4))) = Inr 2"
    by (simp add: example_externals_def quadrature_assemble_def)
  have a3: "assemble example_externals
              (Integral (IntValue 1) (Measure ''ds'' msh dat (Some 3))) = Inr 1"
    by (simp add: example_externals_def quadrature_assemble_def)
  show ?thesis
    unfolding weak_form_def by (simp add: a4 a3 eps Let_def)
qed

theorem cryostatic_height_witness:
  "example_world_1[1 := coordinates example_mesh_1] = example_world[0 := coordinates example_mesh]
   \<and> root_h0 example_params (Some (example_world_1[1 := coordinates example_mesh_1])) = Inr 5
   \<and> stokes_h0 example_params example_world_1 1 example_mesh_1
     = ([MPI_gather 0, MPI_bcast 0], Inr (Some 5))
   \<and> stokes_h0 example_params example_world 0 example_mesh
     = ([MPI_gather 0, MPI_bcast 0], Inr (Some 5))
   \<and> 5 = Max (set (map (\<lambda>r. r ! 1) (filter (\<lambda>r. \<bar>r ! 0\<bar> < tol example_params)
                (concat (example_world_1[1 := coordinates example_mesh_1])))))
   \<and> dim example_params = ''2D''
   \<and> stokes_g_cryo example_params (Some 5)
     = ret (Expression ''rho_i*g*(Hght-x[1])''
              [(''rho_i'', FloatValue 917), (''g'', FloatValue 10), (''Hght'', FloatValue 5)] 1)
   \<and> stokes_g_cryo (example_params\<lparr>dim := ''3D''\<rparr>) None
     = ret (Expression ''rho_i*g*(Hght-x[2])''
              [(''rho_i'', FloatValue 917), (''g'', FloatValue 10), (''Hght'', FloatValue 4)] 1)
   \<and> snd (stokes_solve example_externals example_params example_world_1 1 example_mesh_1 0)
     = Inr \<lparr>fspace = FunctionSpace example_mesh_1 (stokes_element example_params example_mesh_1),
            vec = [1, 2, 3]\<rparr>
   \<and> (\<exists>Fw bcs'.
         last (fst (stokes_solve example_externals example_params example_world_1 1
                      example_mesh_1 0))
         = Call_solve (stokes_solve_call example_params Fw
             \<lparr>fspace = FunctionSpace example_mesh_1
                         (stokes_element example_params example_mesh_1),
              vec = new_vector example_externals
                      (FunctionSpace example_mesh_1
                         (stokes_element example_params example_mesh_1))\<rparr> bcs'))"
proof -
  let ?w1 = "\<lparr>fspace = FunctionSpace example_mesh_1
                          (stokes_element example_params example_mesh_1), vec = [1, 2, 3]\<rparr>"
  have same: "example_world_1[1 := coordinates example_mesh_1]
              = example_world[0 := coordinates example_mesh]"
    by (simp add: example_world_1_def example_mesh_1_def example_world_def example_mesh_def)
  have root: "root_h0 example_params (Some (example_world_1[1 := coordinates example_mesh_1]))
              = Inr 5"
    unfolding same by (rule example_h0)
  note two = cryostatic_height[where P = example_params and world = example_world_1
      and rank = 1 and mesh = example_mesh_1 and h = 5 and world' = example_world
      and rank' = 0 and mesh' = example_mesh and X = example_externals
      and mk = "[1, 2, 3, 4]" and zint = 2 and area = 2 and bcs' = "[]" and t = 0
      and w = ?w1]
  note three = cryostatic_height[where P = "example_params\<lparr>dim := ''3D''\<rparr>"
      and ?h0.0 = None]
  have d: "dim example_params = ''2D''" by (rule example_params_simps(1))
  have h1: "stokes_h0 example_params example_world_1 1 example_mesh_1
     = ([MPI_gather 0, MPI_bcast 0], Inr (Some 5))"
    and h0: "stokes_h0 example_params example_world 0 example_mesh
     = ([MPI_gather 0, MPI_bcast 0], Inr (Some 5))"
    and mx: "5 = Max (set (map (\<lambda>r. r ! 1) (filter (\<lambda>r. \<bar>r ! 0\<bar> < tol example_params)
                (concat (example_world_1[1 := coordinates example_mesh_1])))))"
  proof -
    note first = two[THEN conjunct1, rule_format, OF root]
    show "stokes_h0 example_params example_world_1 1 example_mesh_1
     = ([MPI_gather 0, MPI_bcast 0], Inr (Some 5))"
      by (rule first[THEN conjunct1])
    show "5 = Max (set (map (\<lambda>r. r ! 1) (filter (\<lambda>r. \<bar>r ! 0\<bar> < tol example_params)
                (concat (example_world_1[1 := coordinates example_mesh_1])))))"
      by (rule first[THEN conjunct2, THEN conjunct2, THEN conjunct1])
    show "stokes_h0 example_params example_world 0 example_mesh
     = ([MPI_gather 0, MPI_bcast 0], Inr (Some 5))"
      by (rule first[THEN conjunct2, THEN conjunct2, THEN conjunct2, rule_format,
            OF same[symmetric]])
  qed
  have g2: "stokes_g_cryo example_params (Some 5)
     = ret (Expression ''rho_i*g*(Hght-x[1])''
              [(''rho_i'', FloatValue 917), (''g'', FloatValue 10), (''Hght'', FloatValue 5)] 1)"
    using two by (simp add: example_params_simps)
  have g3: "stokes_g_cryo (example_params\<lparr>dim := ''3D''\<rparr>) None
     = ret (Expression ''rho_i*g*(Hght-x[2])''
              [(''rho_i'', FloatValue 917), (''g'', FloatValue 10), (''Hght'', FloatValue 4)] 1)"
    using three by (simp add: example_params_def)
  have prem: "root_h0 example_params (Some (example_world_1[1 := coordinates example_mesh_1]))
          = Inr 5
       \<and> mark_boundary example_externals example_mesh_1 = Inr [1, 2, 3, 4]
       \<and> assemble example_externals
            (Integral (if dim example_params \<noteq> ''2D'' then Expression ''x[2]'' [] 1
                       else Expression ''x[1]'' [] 1)
            (subdomain (Measure ''ds'' (Some example_mesh_1) (Some [1, 2, 3, 4]) None) 4))
          = Inr 2
       \<and> assemble example_externals (Integral (IntValue 1)
            (subdomain (Measure ''ds'' (Some example_mesh_1) (Some [1, 2, 3, 4]) None) 4))
          = Inr 2
       \<and> (2::real) \<noteq> 0
       \<and> apply_bcs example_externals
            (FunctionSpace example_mesh_1 (stokes_element example_params example_mesh_1))
            [1, 2, 3, 4] = Inr []"
    using root
    by (simp add: example_externals_def example_params_simps quadrature_assemble_def
          example_point_def)
  have run: "snd (stokes_solve example_externals example_params example_world_1 1
                    example_mesh_1 0) = Inr ?w1"
    using two[THEN conjunct2, THEN conjunct2, THEN conjunct2, THEN conjunct2,
              THEN conjunct2, THEN conjunct1, rule_format, OF prem]
    by (simp add: snd_bind example_weak_form_any example_externals_simps)
  have lst: "\<exists>Fw bcs'.
         last (fst (stokes_solve example_externals example_params example_world_1 1
                      example_mesh_1 0))
         = Call_solve (stokes_solve_call example_params Fw
             \<lparr>fspace = FunctionSpace example_mesh_1
                         (stokes_element example_params example_mesh_1),
              vec = new_vector example_externals
                      (FunctionSpace example_mesh_1
                         (stokes_element example_params example_mesh_1))\<rparr> bcs')"
    using two[THEN conjunct2, THEN conjunct2, THEN conjunct2, THEN conjunct2,
              THEN conjunct2, THEN conjunct2, rule_format, OF run]
    by blast
  show ?thesis
    by (intro conjI same root h1 h0 mx d g2 g3 run lst)
qed

section \<open>Runs of the loop of \<^verbatim>\<open>post_process.py\<close>\<close>

lemma gather0_run [simp]:
  "gather0 x peers rank = ([MPI_gather 0], Inr (comm_gather x 0 peers rank))"
  by (simp add: gather0_def call_def)

lemma fst_concat_ravel [simp]: "fst (concat_ravel x) = []"
  by (simp add: concat_ravel_def split: sum.splits)

lemma unhandled_concat_ravel [simp]: "unhandled X (concat_ravel x)"
  by (simp add: concat_ravel_def split: sum.splits)

lemma unhandled_gather0: "unhandled X (gather0 x peers rank)"
  by (simp add: unhandled_def)

lemma unhandled_case_prod:
  "(\<And>a b. unhandled X (f a b)) \<Longrightarrow> unhandled X (case_prod f x)"
  by (cases x) simp

lemma unhandled_post_process_step: "unhandled X (post_process_step X world rank i)"
  unfolding post_process_step_def Let_def
  by (intro unhandled_bind unhandled_call unhandled_call_silent unhandled_if
        unhandled_case_prod unhandled_gather0 unhandled_concat_ravel unhandled_ret)
     simp_all

lemma unhandled_post_process_loop: "unhandled X (post_process_loop X world rank is)"
  by (induction "is") (auto intro!: unhandled_bind unhandled_post_process_step)

lemma unhandled_post_process: "unhandled X (post_process X P world rank)"
  by (simp add: post_process_def unhandled_post_process_loop)


lemma post_process_step_collectives:
  "snd (post_process_step X world rank i) = Inr u
     \<Longrightarrow> filter is_collective (fst (post_process_step X world rank i))
         = replicate 7 (MPI_gather 0)"
  unfolding post_process_step_def Let_def
  by (auto simp: fst_bind snd_bind numeral_eq_Suc split: sum.splits if_splits prod.splits)

lemma post_process_step_only_gathers:
  "ev \<in> set (fst (post_process_step X world rank i)) \<Longrightarrow> is_collective ev
     \<Longrightarrow> ev = MPI_gather 0"
  unfolding post_process_step_def Let_def
  by (auto simp: fst_bind snd_bind split: sum.splits if_splits prod.splits)


lemma post_process_loop_collectives:
  "snd (post_process_loop X world rank is) = Inr u
     \<Longrightarrow> filter is_collective (fst (post_process_loop X world rank is))
         = replicate (7 * length is) (MPI_gather 0)"
proof (induction "is")
  case Nil
  then show ?case by simp
next
  case (Cons i "is")
  from Cons.prems obtain u' where
    step: "snd (post_process_step X world rank i) = Inr u'"
    and rest: "snd (post_process_loop X world rank is) = Inr u"
    by (auto simp: snd_bind split: sum.splits)
  show ?case
    using step post_process_step_collectives[OF step] Cons.IH[OF rest]
    by (simp add: fst_bind replicate_add[symmetric])
qed

lemma post_process_loop_only_gathers:
  "ev \<in> set (fst (post_process_loop X world rank is)) \<Longrightarrow> is_collective ev
     \<Longrightarrow> ev = MPI_gather 0"
proof (induction "is")
  case Nil
  then show ?case by simp
next
  case (Cons i "is")
  then show ?case
    by (auto simp: fst_bind split: sum.splits dest: post_process_step_only_gathers)
qed

lemma stokes_solve_collectives_prefix:
  "\<exists>k. filter is_collective (fst (stokes_solve X P world rank mesh t))
        = take k [MPI_gather 0, MPI_bcast 0]"
proof -
  have h: "filter is_collective (fst (stokes_h0 P world rank mesh)) = [MPI_gather 0]
         \<or> filter is_collective (fst (stokes_h0 P world rank mesh)) = [MPI_gather 0, MPI_bcast 0]"
    unfolding stokes_h0_def Let_def
    by (auto simp: fst_bind split: sum.splits if_splits)
  have rest: "filter is_collective (fst (stokes_solve X P world rank mesh t))
              = filter is_collective (fst (stokes_h0 P world rank mesh))"
    unfolding stokes_solve_def Let_def
    by (auto simp: fst_bind split: sum.splits if_splits)
  from h show ?thesis
  proof
    assume "filter is_collective (fst (stokes_h0 P world rank mesh)) = [MPI_gather 0]"
    then show ?thesis unfolding rest by (intro exI[of _ 1]) simp
  next
    assume "filter is_collective (fst (stokes_h0 P world rank mesh)) = [MPI_gather 0, MPI_bcast 0]"
    then show ?thesis unfolding rest by (intro exI[of _ 2]) simp
  qed
qed

lemma example_post_process_step:
  "snd (post_process_step example_externals example_fields 0 i) = Inr ()"
  unfolding post_process_step_def Let_def
  by (simp add: snd_bind example_externals_def comm_gather_def concat_ravel_def
        np_concatenate_def example_fields_def)

lemma example_post_process_loop:
  "snd (post_process_loop example_externals example_fields 0 is) = Inr ()"
  by (induction "is") (simp_all add: snd_bind example_post_process_step)

lemma example_post_process:
  "snd (post_process example_externals example_params example_fields 0) = Inr ()"
  by (simp add: post_process_def example_post_process_loop)


lemma unhandled_trace_nth:
  "unhandled_trace X tr r \<Longrightarrow> i < length tr \<Longrightarrow> outcome X (tr ! i) = Some e
     \<Longrightarrow> Suc i = length tr \<and> r = Inl e"
proof (induction tr arbitrary: i)
  case Nil
  then show ?case by simp
next
  case (Cons ev tr)
  show ?case
  proof (cases i)
    case 0
    then show ?thesis using Cons.prems by simp
  next
    case (Suc j)
    then have "outcome X ev = None"
      using Cons.prems by (auto split: option.splits)
    then show ?thesis using Cons.prems Cons.IH[of j] Suc by simp
  qed
qed

lemma unhandled_nth:
  "unhandled X m \<Longrightarrow> i < length (fst m) \<Longrightarrow> outcome X (fst m ! i) = Some e
     \<Longrightarrow> Suc i = length (fst m) \<and> snd m = Inl e"
  unfolding unhandled_def by (rule unhandled_trace_nth)

lemma str_0: "str 0 = ''0''"
  by (simp add: str.simps)

lemma failing_boundary_run:
  "stokes_solve failing_boundary example_params example_world 0 example_mesh 0
     = ([MPI_gather 0, MPI_bcast 0, Call_mark_boundary example_mesh],
        Inl (LibraryError ''markers''))"
  unfolding stokes_solve_def Let_def
  by (simp add: example_stokes_h0 failing_boundary_def bind_def call_def)

lemma failing_file_run:
  "post_process failing_file example_params example_fields 0
     = ([Call_HDF5File ''./results/h5files/sol0.h5'' ''r''], Inl (LibraryError ''open''))"
  by (simp add: post_process_def example_params_def upt_rec post_process_step_def
        failing_file_def str_0 bind_def call_def)

lemma elements_agree_iff:
  "post_process_element mesh = stokes_element P mesh \<longleftrightarrow> dim P \<noteq> ''2D''"
  by (simp add: post_process_element_def stokes_element_def Let_def)

lemma post_process_step_reads:
  assumes "HDF5File X (''./results/h5files/sol'' @ str i @ ''.h5'') ''r'' = Inr hdf5"
    and "read_mesh X hdf5 ''mesh'' False = Inr mesh"
  shows "take 3 (fst (post_process_step X world rank i))
     = [Call_HDF5File (''./results/h5files/sol'' @ str i @ ''.h5'') ''r'',
        Call_read_mesh hdf5 ''mesh'' False,
        Call_read_function hdf5
          \<lparr>fspace = FunctionSpace mesh (post_process_element mesh),
           vec = new_vector X (FunctionSpace mesh (post_process_element mesh))\<rparr> ''solution'']"
  unfolding post_process_step_def Let_def using assms
  by (simp add: fst_bind split: sum.splits)

text \<open>
  C3, as the code has it. The collective calls that a run of \<^verbatim>\<open>stokes_solve\<close> makes
  are a gather to rank 0 followed by a broadcast from rank 0, both of them in a run
  that returns and a beginning of the two otherwise. The loop of \<^verbatim>\<open>post_process.py\<close>
  makes collective calls of its own: all of them gathers to rank 0, seven in each of
  its \<^verbatim>\<open>nt\<close> steps when it runs to the end.
\<close>

theorem collective_calls:
  "(\<exists>k. filter is_collective (fst (stokes_solve X P world rank mesh t))
         = take k [MPI_gather 0, MPI_bcast 0])
   \<and> (snd (stokes_solve X P world rank mesh t) = Inr w
      \<longrightarrow> filter is_collective (fst (stokes_solve X P world rank mesh t))
          = [MPI_gather 0, MPI_bcast 0])
   \<and> (\<forall>ev \<in> set (fst (post_process X' P' flds rank')). is_collective ev \<longrightarrow> ev = MPI_gather 0)
   \<and> (snd (post_process X' P' flds rank') = Inr u
      \<longrightarrow> filter is_collective (fst (post_process X' P' flds rank'))
          = replicate (7 * nat (nt P')) (MPI_gather 0))"
proof -
  have "filter is_collective (fst (stokes_solve X P world rank mesh t))
          = [MPI_gather 0, MPI_bcast 0]"
    if "snd (stokes_solve X P world rank mesh t) = Inr w"
    using stokes_solve_success[OF that] by blast
  moreover have "filter is_collective (fst (post_process X' P' flds rank'))
          = replicate (7 * nat (nt P')) (MPI_gather 0)"
    if "snd (post_process X' P' flds rank') = Inr u"
    using post_process_loop_collectives[of X' flds rank' "[0..<nat (nt P')]" u] that
    by (simp add: post_process_def)
  moreover have "\<forall>ev \<in> set (fst (post_process X' P' flds rank')).
                   is_collective ev \<longrightarrow> ev = MPI_gather 0"
    using post_process_loop_only_gathers[of _ X' flds rank' "[0..<nat (nt P')]"]
    by (auto simp: post_process_def)
  ultimately show ?thesis
    using stokes_solve_collectives_prefix[of X P world rank mesh t] by blast
qed

theorem collective_calls_witness:
  "snd (stokes_solve example_externals example_params example_world 0 example_mesh 0)
     = Inr \<lparr>fspace = example_space, vec = [1, 2, 3]\<rparr>
   \<and> filter is_collective
       (fst (stokes_solve example_externals example_params example_world 0 example_mesh 0))
     = [MPI_gather 0, MPI_bcast 0]
   \<and> snd (post_process example_externals example_params example_fields 0) = Inr ()
   \<and> nt example_params = 2
   \<and> filter is_collective (fst (post_process example_externals example_params example_fields 0))
     = replicate (7 * 2) (MPI_gather 0)"
proof -
  note th = collective_calls[of example_externals example_params example_world 0 example_mesh 0
      "\<lparr>fspace = example_space, vec = [1, 2, 3]\<rparr>" example_externals example_params
      example_fields 0 "()"]
  have n: "nt example_params = 2" by (simp add: example_params_def)
  have a: "filter is_collective
       (fst (stokes_solve example_externals example_params example_world 0 example_mesh 0))
     = [MPI_gather 0, MPI_bcast 0]"
    using th example_stokes_solve by blast
  have b: "filter is_collective
       (fst (post_process example_externals example_params example_fields 0))
     = replicate (7 * nat (nt example_params)) (MPI_gather 0)"
    using th example_post_process by blast
  show ?thesis
    using a b[unfolded n] example_stokes_solve example_post_process n by simp
qed

text \<open>
  C3, as it is stated, fails: with two steps, the loop of \<^verbatim>\<open>post_process.py\<close> runs
  to the end and makes fourteen gathers, none of which is a call of \<^verbatim>\<open>stokes_solve\<close>.
\<close>

theorem post_process_gathers_counterexample:
  "snd (post_process example_externals example_params example_fields 0) = Inr ()
   \<and> filter is_collective (fst (post_process example_externals example_params example_fields 0))
     = replicate 14 (MPI_gather 0)
   \<and> filter is_collective (fst (post_process example_externals example_params example_fields 0))
     \<noteq> []"
proof -
  have "filter is_collective
          (fst (post_process_loop example_externals example_fields 0 [0..<nat (nt example_params)]))
        = replicate (7 * length [0..<nat (nt example_params)]) (MPI_gather 0)"
    by (rule post_process_loop_collectives[OF example_post_process_loop])
  then have "filter is_collective
          (fst (post_process example_externals example_params example_fields 0))
        = replicate 14 (MPI_gather 0)"
    by (simp add: post_process_def example_params_def)
  then show ?thesis using example_post_process by (simp add: numeral_eq_Suc)
qed

text \<open>
  C6 fails on the code when \<^verbatim>\<open>dim\<close> is \<^verbatim>\<open>'2D'\<close>. On the example mesh
  \<^verbatim>\<open>stokes_solve\<close> returns a function of the space with two velocity components,
  while the first step of the loop of \<^verbatim>\<open>post_process.py\<close>, having opened
  \<^verbatim>\<open>sol0.h5\<close> and read the mesh, reads \<^verbatim>\<open>"solution"\<close> into a function of the space
  with three velocity components.
\<close>

theorem post_process_space_mismatch_2D:
  "dim example_params = ''2D''
   \<and> snd (stokes_solve example_externals example_params example_world 0 example_mesh 0)
     = Inr \<lparr>fspace = FunctionSpace example_mesh (stokes_element example_params example_mesh),
            vec = [1, 2, 3]\<rparr>
   \<and> take 3 (fst (post_process_step example_externals example_fields 0 0))
     = [Call_HDF5File ''./results/h5files/sol0.h5'' ''r'',
        Call_read_mesh (HDF5Handle ''./results/h5files/sol0.h5'' ''r'') ''mesh'' False,
        Call_read_function (HDF5Handle ''./results/h5files/sol0.h5'' ''r'')
          \<lparr>fspace = FunctionSpace example_mesh (post_process_element example_mesh), vec = []\<rparr>
          ''solution'']
   \<and> stokes_element example_params example_mesh
     = MixedElement [MixedElement [FiniteElement ''P'' ''triangle'' 2,
                                   FiniteElement ''P'' ''triangle'' 2],
                     FiniteElement ''P'' ''triangle'' 1, FiniteElement ''R'' ''triangle'' 0]
   \<and> post_process_element example_mesh
     = MixedElement [MixedElement [FiniteElement ''P'' ''triangle'' 2,
                                   FiniteElement ''P'' ''triangle'' 2,
                                   FiniteElement ''P'' ''triangle'' 2],
                     FiniteElement ''P'' ''triangle'' 1, FiniteElement ''R'' ''triangle'' 0]
   \<and> post_process_element example_mesh \<noteq> stokes_element example_params example_mesh"
proof -
  have cell: "ufl_cell example_mesh = ''triangle''" by (simp add: example_mesh_def)
  have d: "dim example_params = ''2D''" by (rule example_params_simps(1))
  have s: "snd (stokes_solve example_externals example_params example_world 0 example_mesh 0)
     = Inr \<lparr>fspace = FunctionSpace example_mesh (stokes_element example_params example_mesh),
            vec = [1, 2, 3]\<rparr>"
    using example_stokes_solve by (simp add: example_space_def)
  have r: "take 3 (fst (post_process_step example_externals example_fields 0 0))
     = [Call_HDF5File ''./results/h5files/sol0.h5'' ''r'',
        Call_read_mesh (HDF5Handle ''./results/h5files/sol0.h5'' ''r'') ''mesh'' False,
        Call_read_function (HDF5Handle ''./results/h5files/sol0.h5'' ''r'')
          \<lparr>fspace = FunctionSpace example_mesh (post_process_element example_mesh), vec = []\<rparr>
          ''solution'']"
    using post_process_step_reads[of example_externals 0
            "HDF5Handle ''./results/h5files/sol0.h5'' ''r''" example_mesh example_fields 0]
    by (simp add: example_externals_def str_0)
  have e2: "stokes_element example_params example_mesh
     = MixedElement [MixedElement [FiniteElement ''P'' ''triangle'' 2,
                                   FiniteElement ''P'' ''triangle'' 2],
                     FiniteElement ''P'' ''triangle'' 1, FiniteElement ''R'' ''triangle'' 0]"
    by (simp add: stokes_element_def Let_def d cell)
  have e3: "post_process_element example_mesh
     = MixedElement [MixedElement [FiniteElement ''P'' ''triangle'' 2,
                                   FiniteElement ''P'' ''triangle'' 2,
                                   FiniteElement ''P'' ''triangle'' 2],
                     FiniteElement ''P'' ''triangle'' 1, FiniteElement ''R'' ''triangle'' 0]"
    by (simp add: post_process_element_def Let_def cell)
  have ne: "post_process_element example_mesh \<noteq> stokes_element example_params example_mesh"
    using elements_agree_iff[of example_mesh example_params] d by simp
  show ?thesis by (intro conjI d s r e2 e3 ne)
qed

text \<open>
  C7. In every run of \<^verbatim>\<open>stokes_solve\<close> and of the loop of \<^verbatim>\<open>post_process.py\<close>, a
  call that raises (opening or reading a file, an assembly, the solver, or a function
  of the repository's other modules) is the last call of the run, and the run ends with
  the exception of that call: nothing is called afterwards, and the exception reaches
  the caller.
\<close>

theorem exceptions_propagate:
  "(\<forall>i e. i < length (fst (stokes_solve X P world rank mesh t))
          \<and> outcome X (fst (stokes_solve X P world rank mesh t) ! i) = Some e
        \<longrightarrow> Suc i = length (fst (stokes_solve X P world rank mesh t))
            \<and> snd (stokes_solve X P world rank mesh t) = Inl e)
   \<and> (\<forall>i e. i < length (fst (post_process X P flds rank))
          \<and> outcome X (fst (post_process X P flds rank) ! i) = Some e
        \<longrightarrow> Suc i = length (fst (post_process X P flds rank))
            \<and> snd (post_process X P flds rank) = Inl e)"
  using unhandled_nth[OF unhandled_stokes_solve[of X P world rank mesh t]]
        unhandled_nth[OF unhandled_post_process[of X P flds rank]]
  by blast

theorem exceptions_propagate_witness:
  "fst (stokes_solve failing_boundary example_params example_world 0 example_mesh 0)
     = [MPI_gather 0, MPI_bcast 0, Call_mark_boundary example_mesh]
   \<and> outcome failing_boundary (Call_mark_boundary example_mesh) = Some (LibraryError ''markers'')
   \<and> snd (stokes_solve failing_boundary example_params example_world 0 example_mesh 0)
     = Inl (LibraryError ''markers'')
   \<and> nt example_params = 2
   \<and> fst (post_process failing_file example_params example_fields 0)
     = [Call_HDF5File ''./results/h5files/sol0.h5'' ''r'']
   \<and> outcome failing_file (Call_HDF5File ''./results/h5files/sol0.h5'' ''r'')
     = Some (LibraryError ''open'')
   \<and> snd (post_process failing_file example_params example_fields 0)
     = Inl (LibraryError ''open'')"
proof -
  have o1: "outcome failing_boundary (Call_mark_boundary example_mesh)
            = Some (LibraryError ''markers'')"
    by (simp add: failing_boundary_def failure_def)
  have o2: "outcome failing_file (Call_HDF5File ''./results/h5files/sol0.h5'' ''r'')
            = Some (LibraryError ''open'')"
    by (simp add: failing_file_def failure_def)
  note th1 = exceptions_propagate[where X = failing_boundary and P = example_params
      and world = example_world and rank = 0 and mesh = example_mesh and t = 0
      and flds = example_fields, THEN conjunct1, rule_format, of 2 "LibraryError ''markers''"]
  note th2 = exceptions_propagate[where X = failing_file and P = example_params
      and world = example_world and rank = 0 and mesh = example_mesh and t = 0
      and flds = example_fields, THEN conjunct2, rule_format, of 0 "LibraryError ''open''"]
  have s1: "snd (stokes_solve failing_boundary example_params example_world 0 example_mesh 0)
     = Inl (LibraryError ''markers'')"
    using th1 o1 by (simp add: failing_boundary_run)
  have s2: "snd (post_process failing_file example_params example_fields 0)
     = Inl (LibraryError ''open'')"
    using th2 o2 by (simp add: failing_file_run)
  have n: "nt example_params = 2" by (simp add: example_params_def)
  have f1: "fst (stokes_solve failing_boundary example_params example_world 0 example_mesh 0)
     = [MPI_gather 0, MPI_bcast 0, Call_mark_boundary example_mesh]"
    by (simp add: failing_boundary_run)
  have f2: "fst (post_process failing_file example_params example_fields 0)
     = [Call_HDF5File ''./results/h5files/sol0.h5'' ''r'']"
    by (simp add: failing_file_run)
  show ?thesis
    by (intro conjI f1 o1 s1 n f2 o2 s2)
qed

end
